theory Spec2Isabelle
  imports Complex_Main "HOL-Library.Word" "HOL-Library.Log_Nat"
begin

unbundle bit_operations_syntax

section \<open>Data model of the rich-text engine\<close>

text \<open>
  The development embeds \<^verbatim>\<open>sfe::rich_text\<close> of card-gen. The main object of study is
  the latest evolution of the engine (the file with \<^verbatim>\<open>set_source\<close>, fonts chosen by
  tags, and per-line alignment). The loops over the source of two earlier evolutions,
  \<^verbatim>\<open>set_string\<close> in \<^verbatim>\<open>src/include/card-gen/detail/rich_text.cpp\<close> and \<^verbatim>\<open>set_string\<close> in
  \<^verbatim>\<open>src/src/rich_text.cpp\<close>, are embedded as well.

  Conventions.
  \<^item> \<^verbatim>\<open>sf::Uint32\<close> code points are \<open>32 word\<close>, \<^verbatim>\<open>sf::String\<close> is a list of them,
    \<^verbatim>\<open>std::string\<close> is \<open>string\<close>, \<^verbatim>\<open>sf::Uint8\<close> is \<open>8 word\<close>.
  \<^item> \<^verbatim>\<open>float\<close> values are rationals; \<open>max\<close>, comparison and \<^verbatim>\<open>roundf\<close> are exact
    on floats. The sum of the line advance, which moves the pen, is the binary32 sum
    \<open>fadd32\<close>; the edges \<open>left + width\<close> and \<open>top + height\<close> that enter the bounds are
    taken as the exact sums. Infinities and NaN are not modelled.
  \<^item> A font pointer \<^verbatim>\<open>sf::Font*\<close> into the cache \<^verbatim>\<open>_fonts\<close> is the key of the
    entry it points to, \<open>None\<close> for \<^verbatim>\<open>nullptr\<close>.
  \<^item> An exception is a value of type \<open>error\<close>; a function that can throw returns
    the exception (if any) together with the state at the moment it was thrown.
\<close>

type_synonym Uint32 = "32 word"
type_synonym Uint8 = "8 word"
type_synonym sf_String = "Uint32 list"
type_synonym float = rat

record Color =
  color_r :: Uint8
  color_g :: Uint8
  color_b :: Uint8
  color_a :: Uint8

definition sf_Color :: "Uint8 \<Rightarrow> Uint8 \<Rightarrow> Uint8 \<Rightarrow> Uint8 \<Rightarrow> Color" where
  "sf_Color red green blue alpha =
     \<lparr>color_r = red, color_g = green, color_b = blue, color_a = alpha\<rparr>"

definition White :: Color where "White = sf_Color 255 255 255 255"
definition Black :: Color where "Black = sf_Color 0 0 0 255"
definition Red :: Color where "Red = sf_Color 255 0 0 255"
definition Green :: Color where "Green = sf_Color 0 255 0 255"
definition Blue :: Color where "Blue = sf_Color 0 0 255 255"
definition Yellow :: Color where "Yellow = sf_Color 255 255 0 255"
definition Magenta :: Color where "Magenta = sf_Color 255 0 255 255"
definition Cyan :: Color where "Cyan = sf_Color 0 255 255 255"

text \<open>The flags of \<^verbatim>\<open>sf::Text::Style\<close>.\<close>

definition Regular :: Uint32 where "Regular = 0"
definition Bold :: Uint32 where "Bold = 1"
definition Italic :: Uint32 where "Italic = 2"
definition Underlined :: Uint32 where "Underlined = 4"
definition StrikeThrough :: Uint32 where "StrikeThrough = 8"

subsection \<open>The colour registry and colour parsing\<close>

text \<open>The initial contents of the global \<^verbatim>\<open>_colors\<close>.\<close>

definition default_colors :: "string \<rightharpoonup> Color" where
  "default_colors = map_of
     [(''default'', White), (''black'', Black), (''blue'', Blue), (''cyan'', Cyan),
      (''green'', Green), (''magenta'', Magenta), (''red'', Red), (''white'', White),
      (''yellow'', Yellow)]"

text \<open>
  \<^verbatim>\<open>color_from_hex\<close>: the argument is or-ed with \<^verbatim>\<open>0xff000000\<close> before the four
  components are cut out of it.
\<close>

definition color_from_hex :: "32 word \<Rightarrow> Color" where
  "color_from_hex argb_hex =
     (let h = argb_hex OR 0xff000000
      in sf_Color (ucast (drop_bit 16 h AND 0xff)) (ucast (drop_bit 8 h AND 0xff))
           (ucast (drop_bit 0 h AND 0xff)) (ucast (drop_bit 24 h AND 0xff)))"

text \<open>
  \<^verbatim>\<open>std::stoi(source, 0, 16)\<close> of the C++ standard library (through \<^verbatim>\<open>strtol\<close>, in
  the C locale): leading white space is skipped, a sign and a \<^verbatim>\<open>0x\<close> prefix are
  optional, the longest run of hexadecimal digits is converted and whatever follows is
  ignored. \<open>None\<close> stands for the two exceptions: \<^verbatim>\<open>std::invalid_argument\<close> when there
  is no digit, \<^verbatim>\<open>std::out_of_range\<close> when the value does not fit an \<^verbatim>\<open>int\<close>.
\<close>

definition isspace_char :: "char \<Rightarrow> bool" where
  "isspace_char c = (let n = (of_char c :: nat) in n = 32 \<or> (9 \<le> n \<and> n \<le> 13))"

definition hex_digit :: "char \<Rightarrow> nat option" where
  "hex_digit c =
     (let n = (of_char c :: nat)
      in if 48 \<le> n \<and> n \<le> 57 then Some (n - 48)
         else if 97 \<le> n \<and> n \<le> 102 then Some (n - 87)
         else if 65 \<le> n \<and> n \<le> 70 then Some (n - 55)
         else None)"

definition is_hex :: "char \<Rightarrow> bool" where
  "is_hex c = (hex_digit c \<noteq> None)"

definition strip_sign :: "string \<Rightarrow> bool \<times> string" where
  "strip_sign s =
     (case s of
        [] \<Rightarrow> (False, s)
      | c # cs \<Rightarrow> if c = CHR ''-'' then (True, cs)
                 else if c = CHR ''+'' then (False, cs) else (False, s))"

definition strip_0x :: "string \<Rightarrow> string" where
  "strip_0x s =
     (case s of
        z # x # h # cs \<Rightarrow>
          if z = CHR ''0'' \<and> (x = CHR ''x'' \<or> x = CHR ''X'') \<and> is_hex h then h # cs else s
      | _ \<Rightarrow> s)"

definition hex_value :: "string \<Rightarrow> int" where
  "hex_value ds = foldl (\<lambda>acc d. 16 * acc + int (the (hex_digit d))) 0 ds"

definition stoi16 :: "string \<Rightarrow> int option" where
  "stoi16 s =
     (let (neg, s1) = strip_sign (dropWhile isspace_char s);
          ds = takeWhile is_hex (strip_0x s1)
      in if ds = [] then None
         else let n = (if neg then - hex_value ds else hex_value ds)
              in if n < - (2 ^ 31) \<or> 2 ^ 31 - 1 < n then None else Some n)"

text \<open>
  \<^verbatim>\<open>color_from_string\<close>: the registry first, then the hexadecimal reading; the
  \<^verbatim>\<open>catch (...)\<close> turns both exceptions of \<^verbatim>\<open>std::stoi\<close> into white. The \<^verbatim>\<open>int\<close> is
  converted to \<^verbatim>\<open>unsigned\<close> at the call of \<^verbatim>\<open>color_from_hex\<close>.
\<close>

definition color_from_string :: "(string \<rightharpoonup> Color) \<Rightarrow> string \<Rightarrow> Color" where
  "color_from_string colors source =
     (case colors source of
        Some c \<Rightarrow> c
      | None \<Rightarrow>
          (case stoi16 source of
             Some n \<Rightarrow> color_from_hex (word_of_int n)
           | None \<Rightarrow> White))"

text \<open>The two overloads of \<^verbatim>\<open>add_color\<close>, on the registry passed explicitly.\<close>

definition add_color :: "(string \<rightharpoonup> Color) \<Rightarrow> string \<Rightarrow> Color \<Rightarrow> (string \<rightharpoonup> Color)" where
  "add_color colors name color = colors(name \<mapsto> color)"

definition add_color_hex :: "(string \<rightharpoonup> Color) \<Rightarrow> string \<Rightarrow> 32 word \<Rightarrow> (string \<rightharpoonup> Color)" where
  "add_color_hex colors name argb_hex = colors(name \<mapsto> color_from_hex argb_hex)"

subsection \<open>Formats, chunks and lines\<close>

record format =
  font :: "string option"
  style_flags :: Uint32
  fill_color :: Color
  outline_color :: Color
  outline_thickness :: float

text \<open>The default member initialisers of \<^verbatim>\<open>struct format\<close>.\<close>

definition default_format :: format where
  "default_format =
     \<lparr>font = None, style_flags = Regular, fill_color = White, outline_color = White,
      outline_thickness = 0\<rparr>"

record chunk =
  chunk_format :: format
  chunk_text :: sf_String

datatype align = align_left | align_center | align_right

record line =
  chunks :: "chunk list"
  alignment :: align

text \<open>\<^verbatim>\<open>chunk{f}\<close> and \<^verbatim>\<open>line{{chunk{f}}}\<close>: the text is empty, the alignment is left.\<close>

definition new_chunk :: "format \<Rightarrow> chunk" where
  "new_chunk f = \<lparr>chunk_format = f, chunk_text = []\<rparr>"

definition new_line :: "format \<Rightarrow> line" where
  "new_line f = \<lparr>chunks = [new_chunk f], alignment = align_left\<rparr>"

subsection \<open>Exceptions\<close>

text \<open>
  The exceptions \<^verbatim>\<open>set_source\<close> can leave with, under the names of the specification's
  error taxonomy:
  \<^item> \<open>UnterminatedTag\<close>: \<^verbatim>\<open>std::domain_error{"Missing ']' in tag."}\<close>;
  \<^item> \<open>InvalidEscape None\<close>: the \<^verbatim>\<open>std::domain_error\<close> for a backslash at the end of the
    source; \<open>InvalidEscape (Some x)\<close>: the one for the escape of a non-control
    character \<open>x\<close>;
  \<^item> \<open>InvalidAlignment arg\<close>: \<^verbatim>\<open>std::domain_error\<close> "Invalid alignment";
  \<^item> \<open>InvalidNumber\<close>: what \<^verbatim>\<open>std::stof\<close> throws;
  \<^item> \<open>FontLoadError arg\<close>: \<^verbatim>\<open>std::runtime_error\<close> "Could not load font";
  \<^item> \<open>MissingFont\<close>: \<^verbatim>\<open>std::domain_error{"Text missing font specification."}\<close>;
  \<^item> \<open>LengthError\<close>: a tag without a space makes \<^verbatim>\<open>command_end + 1\<close> lie behind
    \<^verbatim>\<open>tag_end\<close>, and \<^verbatim>\<open>sf::String::fromUtf32\<close> is handed a reversed iterator range.
    That is undefined behaviour; the string implementations of libstdc++ and MSVC
    answer it with \<^verbatim>\<open>std::length_error\<close>.
\<close>

datatype error =
  UnterminatedTag
| InvalidEscape "Uint32 option"
| InvalidAlignment string
| InvalidNumber
| FontLoadError string
| MissingFont
| LengthError

subsection \<open>External collaborators\<close>

record sf_Text =
  m_string :: sf_String
  m_font :: string
  m_characterSize :: "32 word"
  m_style :: Uint32
  m_fillColor :: Color
  m_outlineColor :: Color
  m_outlineThickness :: float
  m_position :: "float \<times> float"

record FloatRect =
  rect_left :: float
  rect_top :: float
  rect_width :: float
  rect_height :: float

text \<open>
  What the engine calls and does not define: the conversion of \<^verbatim>\<open>sf::String\<close> to an ANSI
  string, \<^verbatim>\<open>std::stof\<close> (\<open>None\<close> when it throws), \<^verbatim>\<open>sf::Font::loadFromFile\<close>, and the
  measurements of SFML (\<^verbatim>\<open>sf::Font::getLineSpacing\<close>, \<^verbatim>\<open>sf::Text::findCharacterPos\<close>,
  \<^verbatim>\<open>sf::Text::getGlobalBounds\<close>). They are parameters of the model.
\<close>

record env =
  toAnsiString :: "sf_String \<Rightarrow> string"
  stof :: "string \<Rightarrow> float option"
  loadFromFile :: "string \<Rightarrow> bool"
  getLineSpacing :: "string \<Rightarrow> 32 word \<Rightarrow> float"
  findCharacterPos :: "sf_Text \<Rightarrow> nat \<Rightarrow> float \<times> float"
  getGlobalBounds :: "sf_Text \<Rightarrow> FloatRect"

section \<open>Tokenisation: the first loop of \<^verbatim>\<open>set_source\<close>\<close>

text \<open>A character literal as a code point, and a string literal as an \<^verbatim>\<open>sf::String\<close>.\<close>

definition ch :: "char \<Rightarrow> Uint32" where
  "ch c = of_nat (of_char c)"

definition utf32 :: "string \<Rightarrow> sf_String" where
  "utf32 s = map ch s"

text \<open>
  The locals of the loop, \<^verbatim>\<open>current_format\<close> and \<^verbatim>\<open>lines\<close>, and the keys of the global
  font cache \<^verbatim>\<open>_fonts\<close>.
\<close>

record tok_state =
  current_format :: format
  lines :: "line list"
  fonts :: "string set"

text \<open>\<open>xs.back() = f (xs.back())\<close> on a vector.\<close>

definition map_back :: "('a \<Rightarrow> 'a) \<Rightarrow> 'a list \<Rightarrow> 'a list" where
  "map_back f xs = butlast xs @ [f (last xs)]"

text \<open>
  The lambda \<^verbatim>\<open>apply_formatting\<close>. It is declared \<^verbatim>\<open>static\<close> and captures the locals by
  reference, so its captures are those of the first call of \<^verbatim>\<open>set_source\<close> in the
  process; the model is that of a call in which the captures are the call's own locals.
\<close>

definition apply_formatting :: "tok_state \<Rightarrow> tok_state" where
  "apply_formatting st =
     (if chunk_text (last (chunks (last (lines st)))) \<noteq> []
      then st\<lparr>lines := map_back (\<lambda>l. l\<lparr>chunks := chunks l @ [new_chunk (current_format st)]\<rparr>)
                 (lines st)\<rparr>
      else st\<lparr>lines := map_back (\<lambda>l. l\<lparr>chunks :=
                 map_back (\<lambda>c. c\<lparr>chunk_format := current_format st\<rparr>) (chunks l)\<rparr>)
                 (lines st)\<rparr>)"

definition toggle :: "Uint32 \<Rightarrow> tok_state \<Rightarrow> tok_state" where
  "toggle flag st =
     apply_formatting
       (st\<lparr>current_format :=
          (current_format st)\<lparr>style_flags := style_flags (current_format st) XOR flag\<rparr>\<rparr>)"

text \<open>\<^verbatim>\<open>lines.back().chunks.back().text += *it\<close>\<close>

definition append_text :: "Uint32 \<Rightarrow> tok_state \<Rightarrow> tok_state" where
  "append_text c st =
     st\<lparr>lines := map_back (\<lambda>l. l\<lparr>chunks :=
           map_back (\<lambda>k. k\<lparr>chunk_text := chunk_text k @ [c]\<rparr>) (chunks l)\<rparr>) (lines st)\<rparr>"

text \<open>\<^verbatim>\<open>lines.push_back(line{{chunk{current_format}}})\<close>\<close>

definition push_line :: "tok_state \<Rightarrow> tok_state" where
  "push_line st = st\<lparr>lines := lines st @ [new_line (current_format st)]\<rparr>"

definition set_alignment :: "align \<Rightarrow> tok_state \<Rightarrow> tok_state" where
  "set_alignment al st = st\<lparr>lines := map_back (\<lambda>l. l\<lparr>alignment := al\<rparr>) (lines st)\<rparr>"

text \<open>
  The body of the tag case after the closing bracket has been found; \<open>body\<close> is the
  text between the brackets. The command ends at the first space, and the argument
  starts one behind it.
\<close>

definition handle_tag ::
  "env \<Rightarrow> (string \<rightharpoonup> Color) \<Rightarrow> tok_state \<Rightarrow> sf_String \<Rightarrow> error option \<times> tok_state" where
  "handle_tag env colors st body =
     (if ch CHR '' '' \<notin> set body then (Some LengthError, st)
      else
        let command = takeWhile (\<lambda>c. c \<noteq> ch CHR '' '') body;
            arg = toAnsiString env (tl (dropWhile (\<lambda>c. c \<noteq> ch CHR '' '') body))
        in if command = utf32 ''fill-color'' then
             (None, apply_formatting (st\<lparr>current_format :=
                (current_format st)\<lparr>fill_color := color_from_string colors arg\<rparr>\<rparr>))
           else if command = utf32 ''outline-color'' then
             (None, apply_formatting (st\<lparr>current_format :=
                (current_format st)\<lparr>outline_color := color_from_string colors arg\<rparr>\<rparr>))
           else if command = utf32 ''outline-thickness'' then
             (case stof env arg of
                None \<Rightarrow> (Some InvalidNumber, st)
              | Some x \<Rightarrow>
                  (None, apply_formatting (st\<lparr>current_format :=
                     (current_format st)\<lparr>outline_thickness := x\<rparr>\<rparr>)))
           else if command = utf32 ''font'' then
             (if arg \<notin> fonts st \<and> \<not> loadFromFile env arg
              then (Some (FontLoadError arg), st\<lparr>fonts := insert arg (fonts st)\<rparr>)
              else (None, apply_formatting (st\<lparr>fonts := insert arg (fonts st),
                      current_format := (current_format st)\<lparr>font := Some arg\<rparr>\<rparr>)))
           else if command = utf32 ''align'' then
             (if arg = ''left'' then (None, set_alignment align_left st)
              else if arg = ''center'' then (None, set_alignment align_center st)
              else if arg = ''right'' then (None, set_alignment align_right st)
              else (Some (InvalidAlignment arg), st))
           else (None, st))"

text \<open>The six characters that may follow a backslash.\<close>

definition escapable :: "Uint32 \<Rightarrow> bool" where
  "escapable x \<longleftrightarrow>
     x = ch CHR ''/'' \<or> x = ch CHR ''*'' \<or> x = ch CHR ''_'' \<or> x = ch CHR ''~'' \<or>
     x = ch CHR ''['' \<or> x = ch CHR 0x5C"

text \<open>
  The loop over the source. The argument list is what lies from the iterator to the
  end; the result is the exception, if one was thrown, and the state at the exit.
\<close>

function tokenize ::
  "env \<Rightarrow> (string \<rightharpoonup> Color) \<Rightarrow> tok_state \<Rightarrow> sf_String \<Rightarrow> error option \<times> tok_state" where
  "tokenize env colors st [] = (None, st)"
| "tokenize env colors st (c # rest) =
     (if c = ch CHR ''/'' then tokenize env colors (toggle Italic st) rest
      else if c = ch CHR ''*'' then tokenize env colors (toggle Bold st) rest
      else if c = ch CHR ''_'' then tokenize env colors (toggle Underlined st) rest
      else if c = ch CHR ''~'' then tokenize env colors (toggle StrikeThrough st) rest
      else if c = ch CHR ''['' then
        (if ch CHR '']'' \<notin> set rest then (Some UnterminatedTag, st)
         else
           (case handle_tag env colors st (takeWhile (\<lambda>x. x \<noteq> ch CHR '']'') rest) of
              (Some e, st') \<Rightarrow> (Some e, st')
            | (None, st') \<Rightarrow>
                tokenize env colors st' (tl (dropWhile (\<lambda>x. x \<noteq> ch CHR '']'') rest))))
      else if c = ch CHR 0x5C then
        (case rest of
           [] \<Rightarrow> (Some (InvalidEscape None), st)
         | x # rest' \<Rightarrow>
             if escapable x then tokenize env colors (append_text x st) rest'
             else (Some (InvalidEscape (Some x)), st))
      else if c = ch CHR 0x0A then tokenize env colors (push_line st) rest
      else tokenize env colors (append_text c st) rest)"
  by pat_completeness auto
termination
proof (relation "measure (\<lambda>(env, colors, st, src). length src)")
  fix rest :: sf_String
  have "length (tl (dropWhile (\<lambda>x. x \<noteq> ch CHR '']'') rest)) \<le> length rest"
    using length_dropWhile_le [of "\<lambda>x. x \<noteq> ch CHR '']''" rest] by simp
  then show "\<And>env colors st c x xa x2.
       ((env, colors, x2, tl (dropWhile (\<lambda>x. x \<noteq> ch CHR '']'') rest)), env, colors, st, c # rest)
       \<in> measure (\<lambda>(env, colors, st, src). length src)"
    by simp
qed auto

text \<open>The state before the loop: \<^verbatim>\<open>format current_format; lines{line{{chunk{current_format}}}}\<close>.\<close>

definition initial_state :: "string set \<Rightarrow> tok_state" where
  "initial_state fs =
     \<lparr>current_format = default_format, lines = [new_line default_format], fonts = fs\<rparr>"

text \<open>The value of one hexadecimal digit, as \<open>hex_value\<close> adds it.\<close>

definition hv :: "char \<Rightarrow> int" where
  "hv c = int (the (hex_digit c))"

section \<open>Layout: the second loop of \<^verbatim>\<open>set_source\<close>\<close>

text \<open>\<^verbatim>\<open>std::roundf\<close>: to the nearest integer, halfway cases away from zero.\<close>

definition roundf :: "float \<Rightarrow> float" where
  "roundf x = (if x < 0 then - of_int \<lfloor>- x + 1 / 2\<rfloor> else of_int \<lfloor>x + 1 / 2\<rfloor>)"

text \<open>
  The sum of two \<^verbatim>\<open>float\<close> values: the exact sum rounded to the nearest binary32 value,
  halfway cases to the even significand. A value other than 0 lies in one binade
  \<open>2\<^sup>e \<le> |x| < 2\<^sup>e\<^sup>+\<^sup>1\<close>; the binary32 values there are the multiples of \<open>2\<^sup>e\<^sup>-\<^sup>2\<^sup>3\<close>, and
  below \<open>2\<^sup>-\<^sup>1\<^sup>2\<^sup>6\<close> the multiples of \<open>2\<^sup>-\<^sup>1\<^sup>4\<^sup>9\<close>. Overflow to infinity is not modelled.
\<close>

definition pow2 :: "int \<Rightarrow> rat" where
  "pow2 k = (if 0 \<le> k then 2 ^ nat k else 1 / 2 ^ nat (- k))"

definition ilog2 :: "rat \<Rightarrow> int" where
  "ilog2 y =
     (let (a, b) = quotient_of y; d = bitlen a - bitlen b
      in if pow2 d \<le> y then d else d - 1)"

definition round_half_even :: "rat \<Rightarrow> int" where
  "round_half_even q =
     (let f = \<lfloor>q\<rfloor>; r = q - of_int f
      in if r < 1 / 2 then f else if 1 / 2 < r then f + 1 else if even f then f else f + 1)"

definition fl32 :: "rat \<Rightarrow> rat" where
  "fl32 x =
     (if x = 0 then 0
      else let u = pow2 (max (ilog2 \<bar>x\<bar>) (- 126) - 23)
           in of_int (round_half_even (x / u)) * u)"

definition fadd32 :: "float \<Rightarrow> float \<Rightarrow> float" where
  "fadd32 x y = fl32 (x + y)"

text \<open>The data members \<^verbatim>\<open>_texts\<close>, \<^verbatim>\<open>_character_size\<close>, \<^verbatim>\<open>_source\<close> and \<^verbatim>\<open>_bounds\<close>.\<close>

record rich_text =
  texts :: "sf_Text list"
  character_size :: "32 word"
  source :: sf_String
  bounds :: FloatRect

text \<open>The object together with the locals \<^verbatim>\<open>next_position\<close> and \<^verbatim>\<open>line_spacing\<close>.\<close>

record layout_state =
  obj :: rich_text
  next_position :: "float \<times> float"
  line_spacing :: float

definition zero_rect :: FloatRect where
  "zero_rect = \<lparr>rect_left = 0, rect_top = 0, rect_width = 0, rect_height = 0\<rparr>"

text \<open>
  The \<^verbatim>\<open>sf::Text\<close> that the loop body builds for a chunk with font \<open>f\<close> when the pen is
  at \<open>pos\<close>: its position is the rounded pen position.
\<close>

definition make_text :: "32 word \<Rightarrow> chunk \<Rightarrow> string \<Rightarrow> float \<times> float \<Rightarrow> sf_Text" where
  "make_text sz c f pos =
     \<lparr>m_string = chunk_text c, m_font = f, m_characterSize = sz,
      m_style = style_flags (chunk_format c), m_fillColor = fill_color (chunk_format c),
      m_outlineColor = outline_color (chunk_format c),
      m_outlineThickness = outline_thickness (chunk_format c),
      m_position = (roundf (fst pos), roundf (snd pos))\<rparr>"

text \<open>\<^verbatim>\<open>_bounds.width = max(...); _bounds.height = max(...)\<close> for the global bounds \<open>tb\<close>.\<close>

definition extend_bounds :: "FloatRect \<Rightarrow> FloatRect \<Rightarrow> FloatRect" where
  "extend_bounds b tb =
     (let right = rect_left tb + rect_width tb;
          b1 = b\<lparr>rect_width := max (rect_width b) (right - rect_left b)\<rparr>;
          bottom = rect_top tb + rect_height tb
      in b1\<lparr>rect_height := max (rect_height b1) (bottom - rect_top b1)\<rparr>)"

text \<open>The body of the inner loop behind the font check.\<close>

definition place_chunk :: "env \<Rightarrow> layout_state \<Rightarrow> chunk \<Rightarrow> string \<Rightarrow> layout_state" where
  "place_chunk env s c f =
     (let t = make_text (character_size (obj s)) c f (next_position s)
      in \<lparr>obj = (obj s)\<lparr>texts := texts (obj s) @ [t],
                bounds := extend_bounds (bounds (obj s)) (getGlobalBounds env t)\<rparr>,
          next_position = findCharacterPos env t (length (chunk_text c)),
          line_spacing =
            max (line_spacing s) (getLineSpacing env f (character_size (obj s)))\<rparr>)"

text \<open>The inner loop, over the chunks of one line.\<close>

fun layout_chunks :: "env \<Rightarrow> layout_state \<Rightarrow> chunk list \<Rightarrow> error option \<times> layout_state" where
  "layout_chunks env s [] = (None, s)"
| "layout_chunks env s (c # cs) =
     (case font (chunk_format c) of
        None \<Rightarrow> (Some MissingFont, s)
      | Some f \<Rightarrow> layout_chunks env (place_chunk env s c f) cs)"

text \<open>
  The outer loop. \<^verbatim>\<open>&line != &lines.back()\<close> holds when lines remain behind the
  current one.
\<close>

definition break_line :: "layout_state \<Rightarrow> layout_state" where
  "break_line s = s\<lparr>next_position := (0, fadd32 (snd (next_position s)) (line_spacing s))\<rparr>"

fun layout_lines :: "env \<Rightarrow> layout_state \<Rightarrow> line list \<Rightarrow> error option \<times> layout_state" where
  "layout_lines env s [] = (None, s)"
| "layout_lines env s (l # rest) =
     (case layout_chunks env (s\<lparr>line_spacing := 0\<rparr>) (chunks l) of
        (Some e, s') \<Rightarrow> (Some e, s')
      | (None, s') \<Rightarrow> layout_lines env (if rest \<noteq> [] then break_line s' else s') rest)"

text \<open>The state in front of the outer loop; \<^verbatim>\<open>clear()\<close> has emptied \<^verbatim>\<open>_texts\<close>.\<close>

definition layout_start :: "rich_text \<Rightarrow> sf_String \<Rightarrow> layout_state" where
  "layout_start rt src =
     \<lparr>obj = rt\<lparr>source := src, texts := [], bounds := zero_rect\<rparr>,
      next_position = (0, 0), line_spacing = 0\<rparr>"

text \<open>
  \<^verbatim>\<open>set_source\<close> on the object \<open>rt\<close>, with the font cache holding \<open>fs\<close>: the exception, if
  any, the font cache and the object as the call leaves them.
\<close>

definition set_source ::
  "env \<Rightarrow> (string \<rightharpoonup> Color) \<Rightarrow> string set \<Rightarrow> rich_text \<Rightarrow> sf_String \<Rightarrow>
     error option \<times> string set \<times> rich_text" where
  "set_source env colors fs rt src =
     (case tokenize env colors (initial_state fs) src of
        (Some e, st) \<Rightarrow> (Some e, fonts st, obj (layout_start rt src))
      | (None, st) \<Rightarrow>
          (case layout_lines env (layout_start rt src) (lines st) of
             (err, s) \<Rightarrow> (err, fonts st, obj s)))"

text \<open>The constructor: the object does not exist unless \<^verbatim>\<open>set_source\<close> returns.\<close>

definition new_rich_text ::
  "env \<Rightarrow> (string \<rightharpoonup> Color) \<Rightarrow> string set \<Rightarrow> sf_String \<Rightarrow> 32 word \<Rightarrow>
     string set \<times> (error + rich_text)" where
  "new_rich_text env colors fs src sz =
     (case set_source env colors fs
             \<lparr>texts = [], character_size = sz, source = [], bounds = zero_rect\<rparr> src of
        (Some e, fs', rt) \<Rightarrow> (fs', Inl e)
      | (None, fs', rt) \<Rightarrow> (fs', Inr rt))"

section \<open>The tokeniser of \<^verbatim>\<open>set_string\<close> in \<^verbatim>\<open>src/include/card-gen/detail/rich_text.cpp\<close>\<close>

text \<open>
  This earlier evolution of the engine has one font for the whole text, \<^verbatim>\<open>~\<close> for italic
  and \<^verbatim>\<open>#\<close> for a colour. It keeps a vector of lines, each a vector of chunks, and the
  style cursor in the two locals \<^verbatim>\<open>current_style_flags\<close> and \<^verbatim>\<open>current_color\<close>.
\<close>

record chunk0 =
  style_flags0 :: Uint32
  color0 :: Color
  text0 :: sf_String

record line0 =
  chunks0 :: "chunk0 list"

record tok_state0 =
  current_style_flags :: Uint32
  current_color :: Color
  lines0 :: "line0 list"

text \<open>\<^verbatim>\<open>chunk{}\<close>, by the default member initialisers, and \<^verbatim>\<open>chunk{flags, color}\<close>.\<close>

definition default_chunk0 :: chunk0 where
  "default_chunk0 = \<lparr>style_flags0 = Regular, color0 = White, text0 = []\<rparr>"

definition push_chunk0 :: "tok_state0 \<Rightarrow> tok_state0" where
  "push_chunk0 st =
     st\<lparr>lines0 := map_back (\<lambda>l. l\<lparr>chunks0 := chunks0 l @
           [\<lparr>style_flags0 = current_style_flags st, color0 = current_color st, text0 = []\<rparr>]\<rparr>)
         (lines0 st)\<rparr>"

definition toggle0 :: "Uint32 \<Rightarrow> tok_state0 \<Rightarrow> tok_state0" where
  "toggle0 flag st = push_chunk0 (st\<lparr>current_style_flags := current_style_flags st XOR flag\<rparr>)"

definition append_text0 :: "Uint32 \<Rightarrow> tok_state0 \<Rightarrow> tok_state0" where
  "append_text0 c st =
     st\<lparr>lines0 := map_back (\<lambda>l. l\<lparr>chunks0 :=
           map_back (\<lambda>k. k\<lparr>text0 := text0 k @ [c]\<rparr>) (chunks0 l)\<rparr>) (lines0 st)\<rparr>"

text \<open>
  The newline case, lines 124 to 126 of \<^verbatim>\<open>src/include/card-gen/detail/rich_text.cpp\<close>:
  \<^verbatim>\<open>lines.push_back(line{{chunk{}}})\<close>.
\<close>

definition push_line0 :: "tok_state0 \<Rightarrow> tok_state0" where
  "push_line0 st = st\<lparr>lines0 := lines0 st @ [\<lparr>chunks0 = [default_chunk0]\<rparr>]\<rparr>"

text \<open>\<^verbatim>\<open>isspace\<close> on a code point, in the C locale.\<close>

definition isspace_cp :: "Uint32 \<Rightarrow> bool" where
  "isspace_cp c \<longleftrightarrow> c = 32 \<or> (9 \<le> c \<and> c \<le> 13)"

definition escapable0 :: "Uint32 \<Rightarrow> bool" where
  "escapable0 x \<longleftrightarrow>
     x = ch CHR ''~'' \<or> x = ch CHR ''*'' \<or> x = ch CHR ''_'' \<or> x = ch CHR ''#'' \<or>
     x = ch CHR 0x5C"

text \<open>
  The loop of \<^verbatim>\<open>set_string\<close> in \<^verbatim>\<open>src/include/card-gen/detail/rich_text.cpp\<close>, lines 81
  to 131. A colour that runs to the end of the source leaves the iterator at the end,
  and the increment of the loop moves it past the end: the model stops there with
  \<open>PastTheEnd\<close>.
\<close>

datatype error0 = InvalidEscape0 "Uint32 option" | PastTheEnd

function tokenize0 ::
  "env \<Rightarrow> (string \<rightharpoonup> Color) \<Rightarrow> tok_state0 \<Rightarrow> sf_String \<Rightarrow> error0 option \<times> tok_state0" where
  "tokenize0 env colors st [] = (None, st)"
| "tokenize0 env colors st (c # rest) =
     (if c = ch CHR ''~'' then tokenize0 env colors (toggle0 Italic st) rest
      else if c = ch CHR ''*'' then tokenize0 env colors (toggle0 Bold st) rest
      else if c = ch CHR ''_'' then tokenize0 env colors (toggle0 Underlined st) rest
      else if c = ch CHR ''#'' then
        (let st' = push_chunk0 (st\<lparr>current_color :=
               color_from_string colors
                 (toAnsiString env (takeWhile (\<lambda>x. \<not> isspace_cp x) rest))\<rparr>)
         in if \<forall>x\<in>set rest. \<not> isspace_cp x then (Some PastTheEnd, st')
            else tokenize0 env colors st' (tl (dropWhile (\<lambda>x. \<not> isspace_cp x) rest)))
      else if c = ch CHR 0x5C then
        (case rest of
           [] \<Rightarrow> (Some (InvalidEscape0 None), st)
         | x # rest' \<Rightarrow>
             if escapable0 x then tokenize0 env colors (append_text0 x st) rest'
             else (Some (InvalidEscape0 (Some x)), st))
      else if c = ch CHR 0x0A then tokenize0 env colors (push_line0 st) rest
      else tokenize0 env colors (append_text0 c st) rest)"
  by pat_completeness auto
termination
proof (relation "measure (\<lambda>(env, colors, st, src). length src)")
  fix rest :: sf_String
  have "length (tl (dropWhile (\<lambda>x. \<not> isspace_cp x) rest)) \<le> length rest"
    using length_dropWhile_le [of "\<lambda>x. \<not> isspace_cp x" rest] by simp
  then show "\<And>env colors st c x.
       ((env, colors, x, tl (dropWhile (\<lambda>x. \<not> isspace_cp x) rest)), env, colors, st, c # rest)
       \<in> measure (\<lambda>(env, colors, st, src). length src)"
    by simp
qed auto

text \<open>
  The state before the loop, \<^verbatim>\<open>lines{line{{chunk{}}}}\<close> with a regular, white cursor, and
  the loop run from it.
\<close>

definition initial_state0 :: tok_state0 where
  "initial_state0 =
     \<lparr>current_style_flags = Regular, current_color = White,
      lines0 = [\<lparr>chunks0 = [default_chunk0]\<rparr>]\<rparr>"

definition set_string_tokens ::
  "env \<Rightarrow> (string \<rightharpoonup> Color) \<Rightarrow> sf_String \<Rightarrow> error0 option \<times> tok_state0" where
  "set_string_tokens env colors src = tokenize0 env colors initial_state0 src"

section \<open>The tokeniser of \<^verbatim>\<open>set_string\<close> in \<^verbatim>\<open>src/src/rich_text.cpp\<close>\<close>

text \<open>
  This evolution keeps one flat vector of chunks and no separate cursor: a new chunk
  takes style and colour from \<^verbatim>\<open>chunks.back()\<close>, and a chunk that starts a line is
  marked by \<^verbatim>\<open>start_of_new_line\<close>.
\<close>

record chunk1 =
  style_flags1 :: Uint32
  color1 :: Color
  start_of_new_line :: bool
  text1 :: sf_String

text \<open>\<^verbatim>\<open>chunk{}\<close>, by the default member initialisers.\<close>

definition default_chunk1 :: chunk1 where
  "default_chunk1 =
     \<lparr>style_flags1 = Regular, color1 = White, start_of_new_line = False, text1 = []\<rparr>"

text \<open>
  The lambda \<^verbatim>\<open>push_formatted_chunk\<close>:
  \<^verbatim>\<open>chunks.push_back(chunk{chunks.back().style_flags ^ style, chunks.back().color})\<close>.
\<close>

definition push_formatted_chunk :: "Uint32 \<Rightarrow> chunk1 list \<Rightarrow> chunk1 list" where
  "push_formatted_chunk style cs =
     cs @ [\<lparr>style_flags1 = style_flags1 (last cs) XOR style, color1 = color1 (last cs),
            start_of_new_line = False, text1 = []\<rparr>]"

text \<open>\<^verbatim>\<open>chunks.push_back(chunk{chunks.back().style_flags, color})\<close>\<close>

definition push_colored_chunk :: "Color \<Rightarrow> chunk1 list \<Rightarrow> chunk1 list" where
  "push_colored_chunk color cs =
     cs @ [\<lparr>style_flags1 = style_flags1 (last cs), color1 = color,
            start_of_new_line = False, text1 = []\<rparr>]"

text \<open>
  The newline case, lines 116 to 118 of \<^verbatim>\<open>src/src/rich_text.cpp\<close>:
  \<^verbatim>\<open>chunks.push_back(chunk{chunks.back().style_flags, chunks.back().color, true})\<close>.
\<close>

definition push_newline_chunk :: "chunk1 list \<Rightarrow> chunk1 list" where
  "push_newline_chunk cs =
     cs @ [\<lparr>style_flags1 = style_flags1 (last cs), color1 = color1 (last cs),
            start_of_new_line = True, text1 = []\<rparr>]"

text \<open>\<^verbatim>\<open>chunks.back().text += *it\<close>\<close>

definition append_text1 :: "Uint32 \<Rightarrow> chunk1 list \<Rightarrow> chunk1 list" where
  "append_text1 c cs = map_back (\<lambda>k. k\<lparr>text1 := text1 k @ [c]\<rparr>) cs"

text \<open>
  The loop of \<^verbatim>\<open>set_string\<close> in \<^verbatim>\<open>src/src/rich_text.cpp\<close>, lines 75 to 123; the state is
  the vector \<^verbatim>\<open>chunks\<close>. The escapable characters and the colour that runs to the end
  of the source are as in the other \<^verbatim>\<open>set_string\<close>.
\<close>

function tokenize1 ::
  "env \<Rightarrow> (string \<rightharpoonup> Color) \<Rightarrow> chunk1 list \<Rightarrow> sf_String \<Rightarrow> error0 option \<times> chunk1 list" where
  "tokenize1 env colors cs [] = (None, cs)"
| "tokenize1 env colors cs (c # rest) =
     (if c = ch CHR ''~'' then tokenize1 env colors (push_formatted_chunk Italic cs) rest
      else if c = ch CHR ''*'' then tokenize1 env colors (push_formatted_chunk Bold cs) rest
      else if c = ch CHR ''_'' then tokenize1 env colors (push_formatted_chunk Underlined cs) rest
      else if c = ch CHR ''#'' then
        (let cs' = push_colored_chunk
               (color_from_string colors
                  (toAnsiString env (takeWhile (\<lambda>x. \<not> isspace_cp x) rest))) cs
         in if \<forall>x\<in>set rest. \<not> isspace_cp x then (Some PastTheEnd, cs')
            else tokenize1 env colors cs' (tl (dropWhile (\<lambda>x. \<not> isspace_cp x) rest)))
      else if c = ch CHR 0x5C then
        (case rest of
           [] \<Rightarrow> (Some (InvalidEscape0 None), cs)
         | x # rest' \<Rightarrow>
             if escapable0 x then tokenize1 env colors (append_text1 x cs) rest'
             else (Some (InvalidEscape0 (Some x)), cs))
      else if c = ch CHR 0x0A then tokenize1 env colors (push_newline_chunk cs) rest
      else tokenize1 env colors (append_text1 c cs) rest)"
  by pat_completeness auto
termination
proof (relation "measure (\<lambda>(env, colors, cs, src). length src)")
  fix rest :: sf_String
  have "length (tl (dropWhile (\<lambda>x. \<not> isspace_cp x) rest)) \<le> length rest"
    using length_dropWhile_le [of "\<lambda>x. \<not> isspace_cp x" rest] by simp
  then show "\<And>env colors cs c x.
       ((env, colors, x, tl (dropWhile (\<lambda>x. \<not> isspace_cp x) rest)), env, colors, cs, c # rest)
       \<in> measure (\<lambda>(env, colors, cs, src). length src)"
    by simp
qed auto

text \<open>The loop run from the state before it, \<^verbatim>\<open>chunks{{}}\<close>.\<close>

definition set_string_chunks ::
  "env \<Rightarrow> (string \<rightharpoonup> Color) \<Rightarrow> sf_String \<Rightarrow> error0 option \<times> chunk1 list" where
  "set_string_chunks env colors src = tokenize1 env colors [default_chunk1] src"

section \<open>An environment for examples\<close>

text \<open>
  A measurer in the manner of SFML for a fixed-pitch font: every glyph advances the
  pen by 10, a line of text at \<open>(x, y)\<close> covers the rectangle from \<open>(x + 1, y + 8)\<close>, and
  an empty text covers nothing. The line spacing \<open>sp\<close> is a parameter. Code points
  below 256 are their own ANSI characters, every font file loads except
  \<^verbatim>\<open>missing.ttf\<close>, and \<^verbatim>\<open>std::stof\<close> knows the literal \<^verbatim>\<open>1.5\<close>.
\<close>

definition example_env :: "float \<Rightarrow> env" where
  "example_env sp =
     \<lparr>toAnsiString = map (\<lambda>c. char_of (unat c)),
      stof = (\<lambda>s. if s = ''1.5'' then Some (3 / 2) else None),
      loadFromFile = (\<lambda>s. s \<noteq> ''missing.ttf''),
      getLineSpacing = (\<lambda>f sz. sp),
      findCharacterPos =
        (\<lambda>t n. (fst (m_position t) + 10 * of_nat n, snd (m_position t))),
      getGlobalBounds =
        (\<lambda>t. if m_string t = []
              then \<lparr>rect_left = fst (m_position t), rect_top = snd (m_position t),
                     rect_width = 0, rect_height = 0\<rparr>
              else \<lparr>rect_left = fst (m_position t) + 1, rect_top = snd (m_position t) + 8,
                     rect_width = 10 * of_nat (length (m_string t)) - 2, rect_height = 12\<rparr>)\<rparr>"

definition empty_rich_text :: rich_text where
  "empty_rich_text = \<lparr>texts = [], character_size = 30, source = [], bounds = zero_rect\<rparr>"

section \<open>Notions used in the statements\<close>

text \<open>The chunk that receives the next character: \<^verbatim>\<open>lines.back().chunks.back()\<close>.\<close>

definition current_chunk :: "tok_state \<Rightarrow> chunk" where
  "current_chunk st = last (chunks (last (lines st)))"

text \<open>The object as \<^verbatim>\<open>set_source\<close> leaves it when it throws before any text is built.\<close>

definition cleared :: "rich_text \<Rightarrow> sf_String \<Rightarrow> rich_text" where
  "cleared rt src = rt\<lparr>source := src, texts := [], bounds := zero_rect\<rparr>"

text \<open>
  Two invariants of the loop. Every line has a chunk; and as soon as the very first
  chunk has a font, so have the cursor and all chunks (a font, once set, is never
  taken back, and a chunk gets the cursor's format when it is made).
\<close>

definition has_font :: "chunk \<Rightarrow> bool" where
  "has_font c \<longleftrightarrow> font (chunk_format c) \<noteq> None"

definition well_formed :: "line list \<Rightarrow> bool" where
  "well_formed ls \<longleftrightarrow> ls \<noteq> [] \<and> list_all (\<lambda>l. chunks l \<noteq> []) ls"

definition all_have_font :: "line list \<Rightarrow> bool" where
  "all_have_font ls \<longleftrightarrow> list_all (\<lambda>l. list_all has_font (chunks l)) ls"

definition font_inv :: "tok_state \<Rightarrow> bool" where
  "font_inv st \<longleftrightarrow>
     well_formed (lines st) \<and>
     ((has_font (hd (chunks (hd (lines st)))) \<longrightarrow>
       font (current_format st) \<noteq> None \<and> all_have_font (lines st)))"




text \<open>The line spacing of the font of a chunk that has one.\<close>

definition chunk_spacing :: "env \<Rightarrow> 32 word \<Rightarrow> chunk \<Rightarrow> float" where
  "chunk_spacing env sz c = getLineSpacing env (the (font (chunk_format c))) sz"

section \<open>Facts about the tokeniser\<close>

lemma ch_values:
  "ch CHR ''/'' = 47" "ch CHR ''*'' = 42" "ch CHR ''_'' = 95" "ch CHR ''~'' = 126"
  "ch CHR ''['' = 91" "ch CHR '']'' = 93" "ch CHR 0x5C = 92" "ch CHR 0x0A = 10"
  "ch CHR '' '' = 32" "ch CHR ''#'' = 35"
  by (simp_all add: ch_def)

text \<open>
  A prefix that the loop consumes without an exception can be cut off: the loop
  continues on the rest from the state the prefix leaves.
\<close>

lemma tokenize_append:
  "tokenize env colors st pre = (None, st') \<Longrightarrow>
   tokenize env colors st (pre @ post) = tokenize env colors st' post"
proof (induction env colors st pre rule: tokenize.induct)
  case (1 env colors st)
  then show ?case by simp
next
  case (2 env colors st c rest)
  let ?open = "\<lambda>x. x \<noteq> ch CHR '']''"
  show ?case
  proof (cases "c = ch CHR ''[''")
    case True
    note c = this
    from "2.prems" c have mem: "ch CHR '']'' \<in> set rest"
      by (auto simp: ch_values split: if_splits)
    then have tw: "takeWhile ?open (rest @ post) = takeWhile ?open rest"
      by (simp add: takeWhile_append1)
    have dw: "dropWhile ?open (rest @ post) = dropWhile ?open rest @ post"
      using mem by (simp add: dropWhile_append1)
    have ne: "dropWhile ?open rest \<noteq> []"
      using mem by (simp add: dropWhile_eq_Nil_conv)
    obtain e s1 where ht: "handle_tag env colors st (takeWhile ?open rest) = (e, s1)"
      by (cases "handle_tag env colors st (takeWhile ?open rest)") auto
    show ?thesis
    proof (cases e)
      case None
      with "2.prems" c mem ht
      have "tokenize env colors s1 (tl (dropWhile ?open rest)) = (None, st')"
        by (simp add: ch_values)
      then have "tokenize env colors s1 (tl (dropWhile ?open rest) @ post) =
          tokenize env colors st' post"
        using "2.IH"(5) c mem ht None by (simp add: ch_values)
      then show ?thesis
        using c mem ht None tw dw ne by (simp add: ch_values)
    next
      case (Some a)
      with "2.prems" c mem ht show ?thesis
        by (simp add: ch_values)
    qed
  next
    case False
    then show ?thesis
      using "2.prems" "2.IH"
      by (auto simp add: ch_values split: if_splits list.splits)
  qed
qed

lemma set_source_tokenize_error:
  "tokenize env colors (initial_state fs) src = (Some e, st) \<Longrightarrow>
   set_source env colors fs rt src = (Some e, fonts st, cleared rt src)"
  by (simp add: set_source_def layout_start_def cleared_def)

lemma new_rich_text_error:
  "fst (set_source env colors fs
          \<lparr>texts = [], character_size = sz, source = [], bounds = zero_rect\<rparr> src) = Some e \<Longrightarrow>
   snd (new_rich_text env colors fs src sz) = Inl e"
  by (auto simp add: new_rich_text_def split: prod.splits option.splits)

section \<open>Colour resolution\<close>

lemma ff000000_eq: "(0xff000000 :: 32 word) = push_bit 24 (mask 8)"
  by (simp add: mask_eq_exp_minus_1)

lemma ff_eq: "(0xff :: 32 word) = mask 8"
  by (simp add: mask_eq_exp_minus_1)

lemma color_from_hex_r:
  "color_r (color_from_hex (word_of_int n)) = word_of_int (n div 65536 mod 256)"
proof -
  have "color_r (color_from_hex (word_of_int n)) = word_of_int (take_bit 8 (drop_bit 16 n))"
    unfolding color_from_hex_def sf_Color_def Let_def ff000000_eq ff_eq
    by (simp only: Color.simps, intro bit_word_eqI) (auto simp add: bit_simps)
  then show ?thesis
    by (simp add: take_bit_eq_mod drop_bit_eq_div)
qed

lemma color_from_hex_g:
  "color_g (color_from_hex (word_of_int n)) = word_of_int (n div 256 mod 256)"
proof -
  have "color_g (color_from_hex (word_of_int n)) = word_of_int (take_bit 8 (drop_bit 8 n))"
    unfolding color_from_hex_def sf_Color_def Let_def ff000000_eq ff_eq
    by (simp only: Color.simps, intro bit_word_eqI) (auto simp add: bit_simps)
  then show ?thesis
    by (simp add: take_bit_eq_mod drop_bit_eq_div)
qed

lemma color_from_hex_b:
  "color_b (color_from_hex (word_of_int n)) = word_of_int (n mod 256)"
proof -
  have "color_b (color_from_hex (word_of_int n)) = word_of_int (take_bit 8 n)"
    unfolding color_from_hex_def sf_Color_def Let_def ff000000_eq ff_eq
    by (simp only: Color.simps, intro bit_word_eqI) (auto simp add: bit_simps)
  then show ?thesis
    by (simp add: take_bit_eq_mod)
qed

text \<open>Whatever the argument, the alpha component that \<^verbatim>\<open>color_from_hex\<close> returns is 255.\<close>

lemma color_from_hex_a: "color_a (color_from_hex w) = 255"
  unfolding color_from_hex_def sf_Color_def Let_def ff000000_eq
  by (simp, intro bit_word_eqI)
    (auto simp add: bit_simps simp flip: mask_eq_exp_minus_1 [where n = 8, simplified])

lemma color_from_hex_int:
  "color_from_hex (word_of_int n) =
     sf_Color (word_of_int (n div 65536 mod 256)) (word_of_int (n div 256 mod 256))
       (word_of_int (n mod 256)) 255"
proof -
  have "color_from_hex (word_of_int n) =
      sf_Color (color_r (color_from_hex (word_of_int n))) (color_g (color_from_hex (word_of_int n)))
        (color_b (color_from_hex (word_of_int n))) (color_a (color_from_hex (word_of_int n)))"
    by (simp add: sf_Color_def)
  then show ?thesis
    by (simp only: color_from_hex_r color_from_hex_g color_from_hex_b color_from_hex_a)
qed

subsection \<open>\<^verbatim>\<open>std::stoi\<close> on strings of hexadecimal digits\<close>

lemma hv_bounds: "is_hex c \<Longrightarrow> 0 \<le> hv c \<and> hv c < 16"
  by (auto simp: is_hex_def hv_def hex_digit_def Let_def split: if_splits)

lemma is_hex_not_space: "is_hex c \<Longrightarrow> \<not> isspace_char c"
  by (auto simp: is_hex_def hex_digit_def isspace_char_def Let_def split: if_splits)

lemma is_hex_not_sign:
  "is_hex c \<Longrightarrow> c \<noteq> CHR ''-'' \<and> c \<noteq> CHR ''+'' \<and> c \<noteq> CHR ''x'' \<and> c \<noteq> CHR ''X''"
  by (auto simp: is_hex_def hex_digit_def Let_def split: if_splits)

lemma hex_value_snoc: "hex_value (ds @ [d]) = 16 * hex_value ds + hv d"
  by (simp add: hex_value_def hv_def)

lemma hex_value_nonneg: "\<forall>c\<in>set ds. is_hex c \<Longrightarrow> 0 \<le> hex_value ds"
proof (induction ds rule: rev_induct)
  case Nil
  then show ?case by (simp add: hex_value_def)
next
  case (snoc d ds)
  then have "0 \<le> hex_value ds" and "0 \<le> hv d"
    using hv_bounds by auto
  then show ?case by (simp add: hex_value_snoc)
qed

lemma stoi16_hex_string:
  assumes "tok \<noteq> []" and "\<forall>c\<in>set tok. is_hex c"
  shows "stoi16 tok = (if hex_value tok \<le> 2 ^ 31 - 1 then Some (hex_value tok) else None)"
proof -
  obtain a rest where tok: "tok = a # rest"
    using assms(1) by (cases tok) auto
  have a: "is_hex a"
    using assms(2) tok by simp
  have 1: "dropWhile isspace_char tok = tok"
    using a is_hex_not_space tok by simp
  have 2: "strip_sign tok = (False, tok)"
    using a is_hex_not_sign tok by (simp add: strip_sign_def)
  have 3: "strip_0x tok = tok"
    using assms(2) is_hex_not_sign tok by (auto simp add: strip_0x_def split: list.splits)
  have 4: "takeWhile is_hex tok = tok"
    using assms(2) by (simp add: takeWhile_eq_all_conv)
  have 5: "0 \<le> hex_value tok"
    using hex_value_nonneg assms(2) by blast
  show ?thesis
    using 5 assms(1) by (simp add: stoi16_def 1 2 3 4 Let_def)
qed

lemma hex6:
  assumes "length tok = 6" and "\<forall>c\<in>set tok. is_hex c"
  shows "hex_value tok \<le> 2 ^ 31 - 1"
    and "hex_value tok div 65536 mod 256 = hex_value (take 2 tok)"
    and "hex_value tok div 256 mod 256 = hex_value (take 2 (drop 2 tok))"
    and "hex_value tok mod 256 = hex_value (drop 4 tok)"
proof -
  obtain a b c d e f where tok: "tok = [a, b, c, d, e, f]"
    using assms(1) by (auto simp: length_Suc_conv eval_nat_numeral)
  have h: "0 \<le> hv a \<and> hv a < 16" "0 \<le> hv b \<and> hv b < 16" "0 \<le> hv c \<and> hv c < 16"
    "0 \<le> hv d \<and> hv d < 16" "0 \<le> hv e \<and> hv e < 16" "0 \<le> hv f \<and> hv f < 16"
    using assms(2) hv_bounds unfolding tok by auto
  have v: "hex_value tok =
      hv a * 1048576 + hv b * 65536 + hv c * 4096 + hv d * 256 + hv e * 16 + hv f"
    "hex_value (take 2 tok) = hv a * 16 + hv b"
    "hex_value (take 2 (drop 2 tok)) = hv c * 16 + hv d"
    "hex_value (drop 4 tok) = hv e * 16 + hv f"
    unfolding tok by (simp_all add: hex_value_def hv_def)
  show "hex_value tok \<le> 2 ^ 31 - 1"
    using h unfolding v by simp
  let ?hi = "hv a * 16 + hv b" and ?mid = "hv c * 16 + hv d" and ?lo = "hv e * 16 + hv f"
  have hi: "0 \<le> ?hi \<and> ?hi < 256" and mid: "0 \<le> ?mid \<and> ?mid < 256"
    and lo: "0 \<le> ?lo \<and> ?lo < 256"
    using h by auto
  have d1: "hex_value tok div 65536 = ?hi"
    by (rule int_div_pos_eq [where r = "?mid * 256 + ?lo"]) (use mid lo in \<open>auto simp: v\<close>)
  have d2: "hex_value tok div 256 = ?hi * 256 + ?mid"
    by (rule int_div_pos_eq [where r = "?lo"]) (use lo in \<open>auto simp: v\<close>)
  have m1: "?hi mod 256 = ?hi"
    using hi by simp
  have m2: "(?hi * 256 + ?mid) mod 256 = ?mid"
    by (rule int_mod_pos_eq [where q = "?hi"]) (use mid in auto)
  have m3: "hex_value tok mod 256 = ?lo"
    by (rule int_mod_pos_eq [where q = "?hi * 256 + ?mid"]) (use lo in \<open>auto simp: v\<close>)
  show "hex_value tok div 65536 mod 256 = hex_value (take 2 tok)"
    unfolding d1 m1 by (simp only: v)
  show "hex_value tok div 256 mod 256 = hex_value (take 2 (drop 2 tok))"
    unfolding d2 m2 by (simp only: v)
  show "hex_value tok mod 256 = hex_value (drop 4 tok)"
    unfolding m3 by (simp only: v)
qed

lemma hex8:
  assumes "length tok = 8" and "\<forall>c\<in>set tok. is_hex c"
  shows "hex_value tok \<le> 2 ^ 31 - 1 \<longleftrightarrow> hex_value (take 2 tok) < 128"
    and "hex_value tok div 65536 mod 256 = hex_value (take 2 (drop 2 tok))"
    and "hex_value tok div 256 mod 256 = hex_value (take 2 (drop 4 tok))"
    and "hex_value tok mod 256 = hex_value (drop 6 tok)"
proof -
  obtain p q a b c d e f where tok: "tok = [p, q, a, b, c, d, e, f]"
    using assms(1) by (auto simp: length_Suc_conv eval_nat_numeral)
  have h: "0 \<le> hv a \<and> hv a < 16" "0 \<le> hv b \<and> hv b < 16" "0 \<le> hv c \<and> hv c < 16"
    "0 \<le> hv d \<and> hv d < 16" "0 \<le> hv e \<and> hv e < 16" "0 \<le> hv f \<and> hv f < 16"
    "0 \<le> hv p \<and> hv p < 16" "0 \<le> hv q \<and> hv q < 16"
    using assms(2) hv_bounds unfolding tok by auto
  let ?al = "hv p * 16 + hv q" and ?hi = "hv a * 16 + hv b" and ?mid = "hv c * 16 + hv d"
    and ?lo = "hv e * 16 + hv f"
  have v: "hex_value tok = ?al * 16777216 + ?hi * 65536 + ?mid * 256 + ?lo"
    "hex_value (take 2 tok) = ?al"
    "hex_value (take 2 (drop 2 tok)) = ?hi"
    "hex_value (take 2 (drop 4 tok)) = ?mid"
    "hex_value (drop 6 tok) = ?lo"
    unfolding tok by (simp_all add: hex_value_def hv_def)
  have al: "0 \<le> ?al \<and> ?al < 256" and hi: "0 \<le> ?hi \<and> ?hi < 256"
    and mid: "0 \<le> ?mid \<and> ?mid < 256" and lo: "0 \<le> ?lo \<and> ?lo < 256"
    using h by auto
  show "hex_value tok \<le> 2 ^ 31 - 1 \<longleftrightarrow> hex_value (take 2 tok) < 128"
    using hi mid lo unfolding v by auto
  have d1: "hex_value tok div 65536 = ?al * 256 + ?hi"
    by (rule int_div_pos_eq [where r = "?mid * 256 + ?lo"]) (use mid lo in \<open>auto simp: v\<close>)
  have d2: "hex_value tok div 256 = ?al * 65536 + ?hi * 256 + ?mid"
    by (rule int_div_pos_eq [where r = "?lo"]) (use lo in \<open>auto simp: v\<close>)
  have m1: "(?al * 256 + ?hi) mod 256 = ?hi"
    by (rule int_mod_pos_eq [where q = "?al"]) (use hi in auto)
  have m2: "(?al * 65536 + ?hi * 256 + ?mid) mod 256 = ?mid"
    by (rule int_mod_pos_eq [where q = "?al * 256 + ?hi"]) (use mid in auto)
  have m3: "hex_value tok mod 256 = ?lo"
    by (rule int_mod_pos_eq [where q = "?al * 65536 + ?hi * 256 + ?mid"])
      (use lo in \<open>auto simp: v\<close>)
  show "hex_value tok div 65536 mod 256 = hex_value (take 2 (drop 2 tok))"
    unfolding d1 m1 by (simp only: v)
  show "hex_value tok div 256 mod 256 = hex_value (take 2 (drop 4 tok))"
    unfolding d2 m2 by (simp only: v)
  show "hex_value tok mod 256 = hex_value (drop 6 tok)"
    unfolding m3 by (simp only: v)
qed

lemmas color_eval_defs =
  color_from_string_def default_colors_def stoi16_def strip_sign_def strip_0x_def is_hex_def
  hex_digit_def hex_value_def isspace_char_def color_from_hex_def sf_Color_def White_def
  Black_def Red_def Green_def Blue_def Yellow_def Magenta_def Cyan_def add_color_def
  add_color_hex_def

text \<open>
  Claim C5: what \<^verbatim>\<open>color_from_string\<close> computes. A registered name resolves to its
  registered colour. Any other token is read by \<^verbatim>\<open>std::stoi\<close> in base 16: when that
  yields \<open>n\<close>, the colour has the red, green and blue of bits 16-23, 8-15 and 0-7 of \<open>n\<close>
  and is always fully opaque; when it throws, the colour is white. So a token \<^verbatim>\<open>RRGGBB\<close>
  of six hexadecimal digits gives that colour, opaque, but a token \<^verbatim>\<open>AARRGGBB\<close> of eight
  gives the opaque \<^verbatim>\<open>RRGGBB\<close> when \<^verbatim>\<open>AA\<close> is below \<^verbatim>\<open>80\<close> and white otherwise: the
  alpha that \<^verbatim>\<open>color_from_hex\<close> reads from bits 24-31 of its parameter \<^verbatim>\<open>argb_hex\<close> is
  never the supplied one, because the parameter is first or-ed with \<^verbatim>\<open>0xff000000\<close>, and
  \<^verbatim>\<open>std::stoi\<close> into an \<^verbatim>\<open>int\<close> rejects every value from \<^verbatim>\<open>80000000\<close> on.
  \<open>color_from_string\<close> is a total function: resolution never fails.
\<close>

theorem color_from_string_resolution:
  "(colors tok = Some c \<longrightarrow> color_from_string colors tok = c) \<and>
   (colors tok = None \<and> stoi16 tok = None \<longrightarrow> color_from_string colors tok = White) \<and>
   (colors tok = None \<and> stoi16 tok = Some n \<longrightarrow>
      color_from_string colors tok =
        sf_Color (word_of_int (n div 65536 mod 256)) (word_of_int (n div 256 mod 256))
          (word_of_int (n mod 256)) 255) \<and>
   (colors tok = None \<and> length tok = 6 \<and> (\<forall>d\<in>set tok. is_hex d) \<longrightarrow>
      color_from_string colors tok =
        sf_Color (word_of_int (hex_value (take 2 tok)))
          (word_of_int (hex_value (take 2 (drop 2 tok))))
          (word_of_int (hex_value (drop 4 tok))) 255) \<and>
   (colors tok = None \<and> length tok = 8 \<and> (\<forall>d\<in>set tok. is_hex d) \<longrightarrow>
      color_from_string colors tok =
        (if hex_value (take 2 tok) < 128
         then sf_Color (word_of_int (hex_value (take 2 (drop 2 tok))))
                (word_of_int (hex_value (take 2 (drop 4 tok))))
                (word_of_int (hex_value (drop 6 tok))) 255
         else White))"
proof (intro conjI impI)
  assume "colors tok = Some c"
  then show "color_from_string colors tok = c"
    by (simp add: color_from_string_def)
next
  assume "colors tok = None \<and> stoi16 tok = None"
  then show "color_from_string colors tok = White"
    by (simp add: color_from_string_def)
next
  assume "colors tok = None \<and> stoi16 tok = Some n"
  then show "color_from_string colors tok =
      sf_Color (word_of_int (n div 65536 mod 256)) (word_of_int (n div 256 mod 256))
        (word_of_int (n mod 256)) 255"
    by (simp add: color_from_string_def color_from_hex_int)
next
  assume a: "colors tok = None \<and> length tok = 6 \<and> (\<forall>d\<in>set tok. is_hex d)"
  then have ne: "tok \<noteq> []"
    by auto
  have "stoi16 tok = Some (hex_value tok)"
    using stoi16_hex_string [OF ne] hex6(1) [of tok] a by simp
  then show "color_from_string colors tok =
      sf_Color (word_of_int (hex_value (take 2 tok)))
        (word_of_int (hex_value (take 2 (drop 2 tok))))
        (word_of_int (hex_value (drop 4 tok))) 255"
    using a hex6(2,3,4) [of tok] by (simp add: color_from_string_def color_from_hex_int)
next
  assume a: "colors tok = None \<and> length tok = 8 \<and> (\<forall>d\<in>set tok. is_hex d)"
  then have ne: "tok \<noteq> []"
    by auto
  have "stoi16 tok = (if hex_value (take 2 tok) < 128 then Some (hex_value tok) else None)"
    using stoi16_hex_string [OF ne] hex8(1) [of tok] a by simp
  then show "color_from_string colors tok =
      (if hex_value (take 2 tok) < 128
       then sf_Color (word_of_int (hex_value (take 2 (drop 2 tok))))
              (word_of_int (hex_value (take 2 (drop 4 tok))))
              (word_of_int (hex_value (drop 6 tok))) 255
       else White)"
    using a hex8(2,3,4) [of tok] by (simp add: color_from_string_def color_from_hex_int)
qed

theorem color_from_string_resolution_witness:
  "color_from_string (add_color default_colors ''gold'' (sf_Color 255 215 0 255)) ''gold'' =
     sf_Color 255 215 0 255 \<and>
   color_from_string default_colors ''xyz'' = White \<and>
   color_from_string default_colors ''ff8000'' = sf_Color 255 128 0 255 \<and>
   color_from_string default_colors ''40ff8000'' = sf_Color 255 128 0 255 \<and>
   color_from_string default_colors ''c0ff8000'' = White"
proof -
  have 1: "add_color default_colors ''gold'' (sf_Color 255 215 0 255) ''gold'' =
      Some (sf_Color 255 215 0 255)"
    by (simp add: add_color_def)
  have 2: "default_colors ''xyz'' = None \<and> stoi16 ''xyz'' = None"
    by (simp add: color_eval_defs)
  have 3: "default_colors ''ff8000'' = None \<and> length ''ff8000'' = 6 \<and>
      (\<forall>d\<in>set ''ff8000''. is_hex d)"
    by (simp add: color_eval_defs)
  have 4: "default_colors ''40ff8000'' = None \<and> length ''40ff8000'' = 8 \<and>
      (\<forall>d\<in>set ''40ff8000''. is_hex d)"
    by (simp add: color_eval_defs)
  have 5: "default_colors ''c0ff8000'' = None \<and> length ''c0ff8000'' = 8 \<and>
      (\<forall>d\<in>set ''c0ff8000''. is_hex d)"
    by (simp add: color_eval_defs)
  have v: "hex_value ''ff'' = 255" "hex_value ''80'' = 128" "hex_value ''00'' = 0"
    "hex_value ''40'' = 64" "hex_value ''c0'' = 192"
    by (simp_all add: hex_value_def hex_digit_def)
  show ?thesis
    using 1 2 3 4 5
      color_from_string_resolution
        [of "add_color default_colors ''gold'' (sf_Color 255 215 0 255)" "''gold''"
          "sf_Color 255 215 0 255"]
      color_from_string_resolution [of default_colors "''xyz''"]
      color_from_string_resolution [of default_colors "''ff8000''"]
      color_from_string_resolution [of default_colors "''40ff8000''"]
      color_from_string_resolution [of default_colors "''c0ff8000''"]
    by (simp add: v)
qed

text \<open>
  Claim C5 fails on the code. The alpha \<^verbatim>\<open>40\<close> of the token \<^verbatim>\<open>40ff8000\<close> is not kept: the
  colour is the opaque orange. The tokens \<^verbatim>\<open>c0ff8000\<close> and \<^verbatim>\<open>ffff0000\<close>, in
  \<^verbatim>\<open>AARRGGBB\<close> form, resolve to white, although the second is the opaque red. The token
  \<^verbatim>\<open>beige\<close>, neither registered nor a hexadecimal literal, does not resolve to white: its
  prefix \<^verbatim>\<open>be\<close> is read as a number, and the colour is the blue of \<^verbatim>\<open>0000be\<close>.
\<close>

theorem color_from_string_counterexample:
  "color_a (color_from_string default_colors ''40ff8000'') \<noteq> 0x40 \<and>
   color_from_string default_colors ''40ff8000'' = sf_Color 255 128 0 255 \<and>
   color_from_string default_colors ''c0ff8000'' \<noteq> sf_Color 255 128 0 192 \<and>
   color_from_string default_colors ''c0ff8000'' = White \<and>
   color_from_string default_colors ''ffff0000'' \<noteq> sf_Color 255 0 0 255 \<and>
   color_from_string default_colors ''ffff0000'' = White \<and>
   default_colors ''beige'' = None \<and>
   color_from_string default_colors ''beige'' \<noteq> White \<and>
   color_from_string default_colors ''beige'' = sf_Color 0 0 190 255"
  by (simp add: color_eval_defs)

section \<open>Tags and formatting\<close>

lemma tokenize_tag:
  assumes "ch CHR '']'' \<notin> set body"
  shows "tokenize env colors st (ch CHR ''['' # body @ ch CHR '']'' # rest) =
     (case handle_tag env colors st body of
        (Some e, st') \<Rightarrow> (Some e, st')
      | (None, st') \<Rightarrow> tokenize env colors st' rest)"
proof -
  let ?open = "\<lambda>x. x \<noteq> ch CHR '']''"
  have tw: "takeWhile ?open (body @ ch CHR '']'' # rest) = body"
    using assms by (auto simp add: takeWhile_tail)
  have dw: "dropWhile ?open (body @ ch CHR '']'' # rest) = ch CHR '']'' # rest"
    using assms by (auto simp add: dropWhile_append3)
  have c: "ch CHR ''['' \<noteq> ch CHR ''/''" "ch CHR ''['' \<noteq> ch CHR ''*''"
    "ch CHR ''['' \<noteq> ch CHR ''_''" "ch CHR ''['' \<noteq> ch CHR ''~''"
    by (simp_all add: ch_values)
  show ?thesis
    by (simp only: tokenize.simps c if_False) (simp add: tw dw split: prod.splits option.splits)
qed

lemma handle_tag_command:
  assumes "ch CHR '' '' \<notin> set cmd"
  shows "handle_tag env colors st (cmd @ ch CHR '' '' # arg) =
     (let a = toAnsiString env arg
      in if cmd = utf32 ''fill-color'' then
           (None, apply_formatting (st\<lparr>current_format :=
              (current_format st)\<lparr>fill_color := color_from_string colors a\<rparr>\<rparr>))
         else if cmd = utf32 ''outline-color'' then
           (None, apply_formatting (st\<lparr>current_format :=
              (current_format st)\<lparr>outline_color := color_from_string colors a\<rparr>\<rparr>))
         else if cmd = utf32 ''outline-thickness'' then
           (case stof env a of
              None \<Rightarrow> (Some InvalidNumber, st)
            | Some x \<Rightarrow>
                (None, apply_formatting (st\<lparr>current_format :=
                   (current_format st)\<lparr>outline_thickness := x\<rparr>\<rparr>)))
         else if cmd = utf32 ''font'' then
           (if a \<notin> fonts st \<and> \<not> loadFromFile env a
            then (Some (FontLoadError a), st\<lparr>fonts := insert a (fonts st)\<rparr>)
            else (None, apply_formatting (st\<lparr>fonts := insert a (fonts st),
                    current_format := (current_format st)\<lparr>font := Some a\<rparr>\<rparr>)))
         else if cmd = utf32 ''align'' then
           (if a = ''left'' then (None, set_alignment align_left st)
            else if a = ''center'' then (None, set_alignment align_center st)
            else if a = ''right'' then (None, set_alignment align_right st)
            else (Some (InvalidAlignment a), st))
         else (None, st))"
proof -
  let ?cmd = "\<lambda>c. c \<noteq> ch CHR '' ''"
  have tw: "takeWhile ?cmd (cmd @ ch CHR '' '' # arg) = cmd"
    using assms by (auto simp add: takeWhile_tail)
  have dw: "dropWhile ?cmd (cmd @ ch CHR '' '' # arg) = ch CHR '' '' # arg"
    using assms by (auto simp add: dropWhile_append3)
  show ?thesis
    unfolding handle_tag_def tw dw by (simp add: Let_def)
qed

text \<open>The five commands: none holds a space or a bracket, and they differ.\<close>

lemma command_chars:
  "ch CHR '' '' \<notin> set (utf32 ''fill-color'')" "ch CHR '']'' \<notin> set (utf32 ''fill-color'')"
  "ch CHR '' '' \<notin> set (utf32 ''outline-color'')" "ch CHR '']'' \<notin> set (utf32 ''outline-color'')"
  "ch CHR '' '' \<notin> set (utf32 ''outline-thickness'')"
  "ch CHR '']'' \<notin> set (utf32 ''outline-thickness'')"
  "ch CHR '' '' \<notin> set (utf32 ''font'')" "ch CHR '']'' \<notin> set (utf32 ''font'')"
  "ch CHR '' '' \<notin> set (utf32 ''align'')" "ch CHR '']'' \<notin> set (utf32 ''align'')"
  by (simp_all add: utf32_def ch_def)

lemma command_lengths:
  "length (utf32 ''fill-color'') = 10" "length (utf32 ''outline-color'') = 13"
  "length (utf32 ''outline-thickness'') = 17" "length (utf32 ''font'') = 4"
  "length (utf32 ''align'') = 5"
  by (simp_all add: utf32_def)

lemma command_distinct:
  "utf32 ''outline-color'' \<noteq> utf32 ''fill-color''"
  "utf32 ''outline-thickness'' \<noteq> utf32 ''fill-color''"
  "utf32 ''outline-thickness'' \<noteq> utf32 ''outline-color''"
  "utf32 ''font'' \<noteq> utf32 ''fill-color''" "utf32 ''font'' \<noteq> utf32 ''outline-color''"
  "utf32 ''font'' \<noteq> utf32 ''outline-thickness''"
  "utf32 ''align'' \<noteq> utf32 ''fill-color''" "utf32 ''align'' \<noteq> utf32 ''outline-color''"
  "utf32 ''align'' \<noteq> utf32 ''outline-thickness''" "utf32 ''align'' \<noteq> utf32 ''font''"
  by (simp_all add: utf32_def ch_def)

text \<open>The two branches of \<^verbatim>\<open>apply_formatting\<close> on a state whose last chunk is \<open>c\<close>.\<close>

lemma apply_formatting_lines:
  assumes "lines st = ls @ [l]" and "chunks l = cs @ [c]"
  shows "lines (apply_formatting st) =
     (if chunk_text c \<noteq> [] then ls @ [l\<lparr>chunks := cs @ [c, new_chunk (current_format st)]\<rparr>]
      else ls @ [l\<lparr>chunks := cs @ [c\<lparr>chunk_format := current_format st\<rparr>]\<rparr>])"
  using assms by (simp add: apply_formatting_def map_back_def)

lemma apply_formatting_others:
  "current_format (apply_formatting st) = current_format st"
  "fonts (apply_formatting st) = fonts st"
  by (simp_all add: apply_formatting_def)

lemma apply_formatting_current_chunk:
  "chunk_format (current_chunk (apply_formatting st)) = current_format st"
  by (simp add: apply_formatting_def current_chunk_def map_back_def new_chunk_def)

lemma append_text_lines:
  "lines st = ls @ [l] \<Longrightarrow> chunks l = cs @ [c] \<Longrightarrow>
   lines (append_text x st) = ls @ [l\<lparr>chunks := cs @ [c\<lparr>chunk_text := chunk_text c @ [x]\<rparr>]\<rparr>]"
  by (simp add: append_text_def map_back_def)

section \<open>Escapes (claim C3)\<close>

text \<open>
  Claim C3. A backslash followed by \<open>x\<close> appends \<open>x\<close> to the text of the current chunk, and
  changes nothing else, exactly when \<open>x\<close> is one of \<^verbatim>\<open>/ * _ ~ [ \<close> and the backslash; for
  any other \<open>x\<close> the loop throws \<open>InvalidEscape\<close>, and so it does for a backslash that ends
  the source. When the loop throws, \<^verbatim>\<open>set_source\<close> leaves with that exception and the
  object holds no text.
\<close>

theorem backslash_escape:
  "(escapable x \<longleftrightarrow>
      x \<in> {ch CHR ''/'', ch CHR ''*'', ch CHR ''_'', ch CHR ''~'', ch CHR ''['', ch CHR 0x5C}) \<and>
   (escapable x \<longrightarrow>
      tokenize env colors st (ch CHR 0x5C # x # rest) =
        tokenize env colors (append_text x st) rest \<and>
      current_format (append_text x st) = current_format st \<and>
      (\<forall>ls l cs c. lines st = ls @ [l] \<and> chunks l = cs @ [c] \<longrightarrow>
         lines (append_text x st) =
           ls @ [l\<lparr>chunks := cs @ [c\<lparr>chunk_text := chunk_text c @ [x]\<rparr>]\<rparr>])) \<and>
   (\<not> escapable x \<longrightarrow>
      tokenize env colors st (ch CHR 0x5C # x # rest) = (Some (InvalidEscape (Some x)), st)) \<and>
   tokenize env colors st [ch CHR 0x5C] = (Some (InvalidEscape None), st) \<and>
   (tokenize env colors (initial_state fs) pre = (None, st) \<and> \<not> escapable x \<longrightarrow>
      set_source env colors fs rt (pre @ ch CHR 0x5C # x # rest) =
        (Some (InvalidEscape (Some x)), fonts st, cleared rt (pre @ ch CHR 0x5C # x # rest))) \<and>
   (tokenize env colors (initial_state fs) pre = (None, st) \<longrightarrow>
      set_source env colors fs rt (pre @ [ch CHR 0x5C]) =
        (Some (InvalidEscape None), fonts st, cleared rt (pre @ [ch CHR 0x5C])))"
proof (intro conjI impI allI)
  show "escapable x \<longleftrightarrow>
      x \<in> {ch CHR ''/'', ch CHR ''*'', ch CHR ''_'', ch CHR ''~'', ch CHR ''['', ch CHR 0x5C}"
    by (auto simp: escapable_def)
  show "tokenize env colors st [ch CHR 0x5C] = (Some (InvalidEscape None), st)"
    by (simp add: ch_values)
next
  assume "escapable x"
  then show "tokenize env colors st (ch CHR 0x5C # x # rest) =
      tokenize env colors (append_text x st) rest"
    by (simp add: ch_values)
  show "current_format (append_text x st) = current_format st"
    by (simp add: append_text_def)
next
  fix ls l cs c
  assume "lines st = ls @ [l] \<and> chunks l = cs @ [c]"
  then show "lines (append_text x st) =
      ls @ [l\<lparr>chunks := cs @ [c\<lparr>chunk_text := chunk_text c @ [x]\<rparr>]\<rparr>]"
    by (simp add: append_text_lines)
next
  assume "\<not> escapable x"
  then show "tokenize env colors st (ch CHR 0x5C # x # rest) =
      (Some (InvalidEscape (Some x)), st)"
    by (simp add: ch_values)
next
  assume a: "tokenize env colors (initial_state fs) pre = (None, st) \<and> \<not> escapable x"
  then have "tokenize env colors (initial_state fs) (pre @ ch CHR 0x5C # x # rest) =
      (Some (InvalidEscape (Some x)), st)"
    by (simp add: tokenize_append ch_values)
  then show "set_source env colors fs rt (pre @ ch CHR 0x5C # x # rest) =
      (Some (InvalidEscape (Some x)), fonts st, cleared rt (pre @ ch CHR 0x5C # x # rest))"
    by (rule set_source_tokenize_error)
next
  assume a: "tokenize env colors (initial_state fs) pre = (None, st)"
  then have "tokenize env colors (initial_state fs) (pre @ [ch CHR 0x5C]) =
      (Some (InvalidEscape None), st)"
    by (simp add: tokenize_append ch_values)
  then show "set_source env colors fs rt (pre @ [ch CHR 0x5C]) =
      (Some (InvalidEscape None), fonts st, cleared rt (pre @ [ch CHR 0x5C]))"
    by (rule set_source_tokenize_error)
qed

theorem backslash_escape_witness:
  "tokenize (example_env 1) default_colors (initial_state {}) (ch CHR 0x5C # utf32 ''*literal*'') =
     tokenize (example_env 1) default_colors
       (append_text (ch CHR ''*'') (initial_state {})) (utf32 ''literal*'') \<and>
   lines (append_text (ch CHR ''*'') (initial_state {})) =
     [\<lparr>chunks = [\<lparr>chunk_format = default_format, chunk_text = [ch CHR ''*'']\<rparr>],
       alignment = align_left\<rparr>] \<and>
   set_source (example_env 1) default_colors {} empty_rich_text
       (utf32 ''ab'' @ ch CHR 0x5C # ch CHR ''n'' # utf32 ''cd'') =
     (Some (InvalidEscape (Some (ch CHR ''n''))), {},
      cleared empty_rich_text (utf32 ''ab'' @ ch CHR 0x5C # ch CHR ''n'' # utf32 ''cd'')) \<and>
   set_source (example_env 1) default_colors {} empty_rich_text (utf32 ''ab'' @ [ch CHR 0x5C]) =
     (Some (InvalidEscape None), {}, cleared empty_rich_text (utf32 ''ab'' @ [ch CHR 0x5C]))"
proof -
  let ?st = "snd (tokenize (example_env 1) default_colors (initial_state {}) (utf32 ''ab''))"
  have esc: "escapable (ch CHR ''*'')" and nesc: "\<not> escapable (ch CHR ''n'')"
    by (simp_all add: escapable_def ch_def)
  have pre: "tokenize (example_env 1) default_colors (initial_state {}) (utf32 ''ab'') =
      (None, ?st)"
    by code_simp
  have fs: "fonts ?st = {}"
    by code_simp
  have shape: "lines (initial_state {}) = [] @ [new_line default_format] \<and>
      chunks (new_line default_format) = [] @ [new_chunk default_format]"
    by (simp add: initial_state_def new_line_def)
  have 1: "tokenize (example_env 1) default_colors (initial_state {})
        (ch CHR 0x5C # utf32 ''*literal*'') =
      tokenize (example_env 1) default_colors
        (append_text (ch CHR ''*'') (initial_state {})) (utf32 ''literal*'')"
    using esc backslash_escape [where x = "ch CHR ''*''" and env = "example_env 1"
        and colors = default_colors and st = "initial_state {}" and rest = "utf32 ''literal*''"]
    by (simp add: utf32_def)
  have 2: "lines (append_text (ch CHR ''*'') (initial_state {})) =
      [\<lparr>chunks = [\<lparr>chunk_format = default_format, chunk_text = [ch CHR ''*'']\<rparr>],
        alignment = align_left\<rparr>]"
    using esc shape backslash_escape [where x = "ch CHR ''*''" and st = "initial_state {}"]
    by (simp add: new_line_def new_chunk_def)
  show ?thesis
    using 1 2 nesc pre fs
      backslash_escape [where x = "ch CHR ''n''" and env = "example_env 1"
        and colors = default_colors and st = ?st and fs = "{}" and pre = "utf32 ''ab''"
        and rt = empty_rich_text and rest = "utf32 ''cd''"]
    by simp
qed

section \<open>Unterminated tags (claim C4)\<close>

text \<open>
  Claim C4, as the code has it. When the text in front of an opening bracket is consumed
  without an exception (so that the loop arrives at the bracket, which is then neither
  escaped nor part of a tag) and no closing bracket follows, the loop throws
  \<open>UnterminatedTag\<close> there, in whatever state it is; \<^verbatim>\<open>set_source\<close> leaves with that
  exception, the object holds no text, and the constructor yields no object.
\<close>

theorem unterminated_tag:
  "(ch CHR '']'' \<notin> set rest \<longrightarrow>
      tokenize env colors st (ch CHR ''['' # rest) = (Some UnterminatedTag, st)) \<and>
   (tokenize env colors (initial_state fs) pre = (None, st) \<and> ch CHR '']'' \<notin> set rest \<longrightarrow>
      set_source env colors fs rt (pre @ ch CHR ''['' # rest) =
        (Some UnterminatedTag, fonts st, cleared rt (pre @ ch CHR ''['' # rest)) \<and>
      texts (snd (snd (set_source env colors fs rt (pre @ ch CHR ''['' # rest)))) = [] \<and>
      snd (new_rich_text env colors fs (pre @ ch CHR ''['' # rest) sz) = Inl UnterminatedTag)"
proof (intro conjI impI)
  assume "ch CHR '']'' \<notin> set rest"
  then show "tokenize env colors st (ch CHR ''['' # rest) = (Some UnterminatedTag, st)"
    by (simp add: ch_values)
next
  assume a: "tokenize env colors (initial_state fs) pre = (None, st) \<and> ch CHR '']'' \<notin> set rest"
  then have t: "tokenize env colors (initial_state fs) (pre @ ch CHR ''['' # rest) =
      (Some UnterminatedTag, st)"
    by (simp add: tokenize_append ch_values)
  then show "set_source env colors fs rt (pre @ ch CHR ''['' # rest) =
      (Some UnterminatedTag, fonts st, cleared rt (pre @ ch CHR ''['' # rest))"
    by (rule set_source_tokenize_error)
  then show "texts (snd (snd (set_source env colors fs rt (pre @ ch CHR ''['' # rest)))) = []"
    by (simp add: cleared_def)
  show "snd (new_rich_text env colors fs (pre @ ch CHR ''['' # rest) sz) = Inl UnterminatedTag"
    by (rule new_rich_text_error) (simp add: set_source_tokenize_error [OF t])
qed

theorem unterminated_tag_witness:
  "set_source (example_env 1) default_colors {} empty_rich_text (utf32 ''abc [font x'') =
     (Some UnterminatedTag, {}, cleared empty_rich_text (utf32 ''abc [font x'')) \<and>
   texts (snd (snd (set_source (example_env 1) default_colors {} empty_rich_text
     (utf32 ''abc [font x'')))) = [] \<and>
   snd (new_rich_text (example_env 1) default_colors {} (utf32 ''abc [font x'') 30) =
     Inl UnterminatedTag"
proof -
  let ?st = "snd (tokenize (example_env 1) default_colors (initial_state {}) (utf32 ''abc ''))"
  have pre: "tokenize (example_env 1) default_colors (initial_state {}) (utf32 ''abc '') =
      (None, ?st)"
    by code_simp
  have fs: "fonts ?st = {}"
    by code_simp
  have no: "ch CHR '']'' \<notin> set (utf32 ''font x'')"
    by (simp add: utf32_def ch_def)
  have src: "utf32 ''abc [font x'' = utf32 ''abc '' @ ch CHR ''['' # utf32 ''font x''"
    by (simp add: utf32_def)
  have "tokenize (example_env 1) default_colors (initial_state {}) (utf32 ''abc '') =
        (None, ?st) \<and> ch CHR '']'' \<notin> set (utf32 ''font x'')"
    using pre no by simp
  then show ?thesis
    unfolding src
    using fs
      unterminated_tag [where env = "example_env 1" and colors = default_colors and st = ?st
        and fs = "{}" and pre = "utf32 ''abc ''" and rest = "utf32 ''font x''"
        and rt = empty_rich_text and sz = 30, THEN conjunct2]
    by (simp add: cleared_def del: tokenize.simps)
qed

text \<open>
  Claim C4 as stated fails for an input whose unterminated tag stands behind an earlier
  error: here the escape of the letter \<^verbatim>\<open>a\<close> is reported, not the missing bracket.
\<close>

theorem unterminated_tag_counterexample:
  "ch CHR '']'' \<notin> set (utf32 ''font x'') \<and>
   fst (set_source (example_env 1) default_colors {} empty_rich_text
          (ch CHR 0x5C # utf32 ''a [font x'')) = Some (InvalidEscape (Some (ch CHR ''a''))) \<and>
   fst (set_source (example_env 1) default_colors {} empty_rich_text
          (ch CHR 0x5C # utf32 ''a [font x'')) \<noteq> Some UnterminatedTag"
proof -
  have "tokenize (example_env 1) default_colors (initial_state {})
      (ch CHR 0x5C # utf32 ''a [font x'') =
      (Some (InvalidEscape (Some (ch CHR ''a''))), initial_state {})"
    by (simp add: utf32_def ch_def escapable_def)
  then show ?thesis
    by (simp add: set_source_tokenize_error) (simp add: utf32_def ch_def)
qed

section \<open>Run splitting (claims C2 and C7)\<close>

lemma tokenize_toggle_chars:
  "tokenize env colors st (ch CHR ''/'' # rest) = tokenize env colors (toggle Italic st) rest"
  "tokenize env colors st (ch CHR ''*'' # rest) = tokenize env colors (toggle Bold st) rest"
  "tokenize env colors st (ch CHR ''_'' # rest) = tokenize env colors (toggle Underlined st) rest"
  "tokenize env colors st (ch CHR ''~'' # rest) =
     tokenize env colors (toggle StrikeThrough st) rest"
  by (simp_all add: ch_values)

lemma tokenize_toggle_single:
  "tokenize env colors st [ch CHR ''/''] = (None, toggle Italic st)"
  "tokenize env colors st [ch CHR ''*''] = (None, toggle Bold st)"
  "tokenize env colors st [ch CHR ''_''] = (None, toggle Underlined st)"
  "tokenize env colors st [ch CHR ''~''] = (None, toggle StrikeThrough st)"
  by (simp_all add: ch_values)

lemma toggle_lines:
  assumes "lines st = ls @ [l]" and "chunks l = cs @ [c]"
  shows "lines (toggle k st) =
     (if chunk_text c \<noteq> []
      then ls @ [l\<lparr>chunks := cs @ [c, new_chunk (current_format (toggle k st))]\<rparr>]
      else ls @ [l\<lparr>chunks := cs @ [c\<lparr>chunk_format := current_format (toggle k st)\<rparr>]\<rparr>])"
  using assms unfolding toggle_def
  by (subst apply_formatting_lines [where ls = ls and l = l and cs = cs and c = c])
    (simp_all add: apply_formatting_others)

lemma toggle_current_format:
  "current_format (toggle k st) =
     (current_format st)\<lparr>style_flags := style_flags (current_format st) XOR k\<rparr>"
  by (simp add: toggle_def apply_formatting_others)

text \<open>A style tag that is handled without an exception has gone through \<^verbatim>\<open>apply_formatting\<close>.\<close>

lemma style_tag_lines:
  assumes "lines st = ls @ [l]" and "chunks l = cs @ [c]"
    and "cmd \<in> {utf32 ''fill-color'', utf32 ''outline-color'', utf32 ''outline-thickness'',
           utf32 ''font''}"
    and "handle_tag env colors st (cmd @ ch CHR '' '' # arg) = (None, st')"
  shows "lines st' =
     (if chunk_text c \<noteq> [] then ls @ [l\<lparr>chunks := cs @ [c, new_chunk (current_format st')]\<rparr>]
      else ls @ [l\<lparr>chunks := cs @ [c\<lparr>chunk_format := current_format st'\<rparr>]\<rparr>])"
proof -
  have sp: "ch CHR '' '' \<notin> set cmd"
    using assms(3) command_chars by auto
  obtain s0 where st': "st' = apply_formatting s0" and l0: "lines s0 = lines st"
    using assms(3,4) unfolding handle_tag_command [OF sp]
    by (auto simp add: Let_def command_distinct split: if_splits option.splits)
  show ?thesis
    unfolding st' apply_formatting_others
    by (rule apply_formatting_lines) (simp_all add: l0 assms(1,2))
qed

lemma align_tag_keeps_runs:
  assumes "lines st = ls @ [l]"
    and "handle_tag env colors st (utf32 ''align'' @ ch CHR '' '' # arg) = (None, st')"
  shows "current_format st' = current_format st \<and> fonts st' = fonts st \<and>
     (\<exists>al. lines st' = ls @ [l\<lparr>alignment := al\<rparr>])"
proof -
  have "\<exists>al. st' = set_alignment al st"
    using assms(2) unfolding handle_tag_command [OF command_chars(9)]
    by (auto simp add: Let_def command_distinct split: if_splits)
  then show ?thesis
    using assms(1) by (auto simp add: set_alignment_def map_back_def)
qed

lemma style_tag_format:
  assumes "cmd \<in> {utf32 ''fill-color'', utf32 ''outline-color'', utf32 ''outline-thickness'',
           utf32 ''font''}"
    and "handle_tag env colors st (cmd @ ch CHR '' '' # arg) = (None, st')"
  shows "current_format st' =
     (if cmd = utf32 ''fill-color''
      then (current_format st)\<lparr>fill_color := color_from_string colors (toAnsiString env arg)\<rparr>
      else if cmd = utf32 ''outline-color''
      then (current_format st)\<lparr>outline_color := color_from_string colors (toAnsiString env arg)\<rparr>
      else if cmd = utf32 ''outline-thickness''
      then (current_format st)\<lparr>outline_thickness := the (stof env (toAnsiString env arg))\<rparr>
      else (current_format st)\<lparr>font := Some (toAnsiString env arg)\<rparr>)"
    and "cmd = utf32 ''outline-thickness'' \<longrightarrow> stof env (toAnsiString env arg) \<noteq> None"
proof -
  have sp: "ch CHR '' '' \<notin> set cmd"
    using assms(1) command_chars by auto
  show "current_format st' =
     (if cmd = utf32 ''fill-color''
      then (current_format st)\<lparr>fill_color := color_from_string colors (toAnsiString env arg)\<rparr>
      else if cmd = utf32 ''outline-color''
      then (current_format st)\<lparr>outline_color := color_from_string colors (toAnsiString env arg)\<rparr>
      else if cmd = utf32 ''outline-thickness''
      then (current_format st)\<lparr>outline_thickness := the (stof env (toAnsiString env arg))\<rparr>
      else (current_format st)\<lparr>font := Some (toAnsiString env arg)\<rparr>)"
    using assms unfolding handle_tag_command [OF sp]
    by (auto simp add: Let_def command_distinct command_distinct [symmetric]
        apply_formatting_others
        split: if_splits option.splits)
  show "cmd = utf32 ''outline-thickness'' \<longrightarrow> stof env (toAnsiString env arg) \<noteq> None"
    using assms unfolding handle_tag_command [OF sp]
    by (auto simp add: Let_def command_distinct command_distinct [symmetric]
        split: if_splits option.splits)
qed

text \<open>
  Claim C2. Let \<open>c\<close> be the current chunk. A style toggle (\<^verbatim>\<open>/ * _ ~\<close>) flips its flag in
  the cursor, and a style tag (\<^verbatim>\<open>fill-color\<close>, \<^verbatim>\<open>outline-color\<close>, \<^verbatim>\<open>outline-thickness\<close>,
  \<^verbatim>\<open>font\<close>) that is handled without an exception writes its argument to its field of the
  cursor. Both leave the lines as follows: when \<open>c\<close> has text, \<open>c\<close> stays and a new chunk
  with empty text and the updated cursor as its format follows it; when \<open>c\<close> has no text,
  \<open>c\<close> only takes the updated cursor as its format and no chunk is added. An \<^verbatim>\<open>align\<close> tag
  changes the alignment of the current line and nothing else: neither the cursor nor
  any chunk.
\<close>

theorem run_splitting:
  "(lines st = ls @ [l] \<and> chunks l = cs @ [c] \<and>
    (frag, k) \<in> {([ch CHR ''/''], Italic), ([ch CHR ''*''], Bold), ([ch CHR ''_''], Underlined),
                 ([ch CHR ''~''], StrikeThrough)} \<and>
    st' = toggle k st \<longrightarrow>
      tokenize env colors st frag = (None, st') \<and>
      current_format st' =
        (current_format st)\<lparr>style_flags := style_flags (current_format st) XOR k\<rparr> \<and>
      lines st' =
        (if chunk_text c \<noteq> []
         then ls @ [l\<lparr>chunks := cs @ [c, \<lparr>chunk_format = current_format st', chunk_text = []\<rparr>]\<rparr>]
         else ls @ [l\<lparr>chunks := cs @ [c\<lparr>chunk_format := current_format st'\<rparr>]\<rparr>])) \<and>
   (lines st = ls @ [l] \<and> chunks l = cs @ [c] \<and>
    cmd \<in> {utf32 ''fill-color'', utf32 ''outline-color'', utf32 ''outline-thickness'',
            utf32 ''font''} \<and>
    ch CHR '']'' \<notin> set arg \<and>
    tokenize env colors st (ch CHR ''['' # cmd @ ch CHR '' '' # arg @ [ch CHR '']'']) =
      (None, st') \<longrightarrow>
      current_format st' =
        (if cmd = utf32 ''fill-color''
         then (current_format st)\<lparr>fill_color := color_from_string colors (toAnsiString env arg)\<rparr>
         else if cmd = utf32 ''outline-color''
         then (current_format st)
                \<lparr>outline_color := color_from_string colors (toAnsiString env arg)\<rparr>
         else if cmd = utf32 ''outline-thickness''
         then (current_format st)\<lparr>outline_thickness := the (stof env (toAnsiString env arg))\<rparr>
         else (current_format st)\<lparr>font := Some (toAnsiString env arg)\<rparr>) \<and>
      (cmd = utf32 ''outline-thickness'' \<longrightarrow> stof env (toAnsiString env arg) \<noteq> None) \<and>
      lines st' =
        (if chunk_text c \<noteq> []
         then ls @ [l\<lparr>chunks := cs @ [c, \<lparr>chunk_format = current_format st', chunk_text = []\<rparr>]\<rparr>]
         else ls @ [l\<lparr>chunks := cs @ [c\<lparr>chunk_format := current_format st'\<rparr>]\<rparr>])) \<and>
   (lines st = ls @ [l] \<and> ch CHR '']'' \<notin> set arg \<and>
    tokenize env colors st (ch CHR ''['' # utf32 ''align'' @ ch CHR '' '' # arg @ [ch CHR '']'']) =
      (None, st') \<longrightarrow>
      current_format st' = current_format st \<and>
      (\<exists>al. lines st' = ls @ [l\<lparr>alignment := al\<rparr>]))"
proof (intro conjI impI)
  assume a: "lines st = ls @ [l] \<and> chunks l = cs @ [c] \<and>
    (frag, k) \<in> {([ch CHR ''/''], Italic), ([ch CHR ''*''], Bold), ([ch CHR ''_''], Underlined),
                 ([ch CHR ''~''], StrikeThrough)} \<and>
    st' = toggle k st"
  then have st': "st' = toggle k st"
    by simp
  show "tokenize env colors st frag = (None, st')"
    using a by (auto simp add: tokenize_toggle_single simp del: tokenize.simps)
  show "current_format st' =
      (current_format st)\<lparr>style_flags := style_flags (current_format st) XOR k\<rparr>"
    unfolding st' by (rule toggle_current_format)
  have "lines (toggle k st) =
      (if chunk_text c \<noteq> []
       then ls @ [l\<lparr>chunks := cs @ [c, new_chunk (current_format (toggle k st))]\<rparr>]
       else ls @ [l\<lparr>chunks := cs @ [c\<lparr>chunk_format := current_format (toggle k st)\<rparr>]\<rparr>])"
    using a by (intro toggle_lines) simp_all
  then show "lines st' =
      (if chunk_text c \<noteq> []
       then ls @ [l\<lparr>chunks := cs @ [c, \<lparr>chunk_format = current_format st', chunk_text = []\<rparr>]\<rparr>]
       else ls @ [l\<lparr>chunks := cs @ [c\<lparr>chunk_format := current_format st'\<rparr>]\<rparr>])"
    unfolding st' new_chunk_def .
next
  assume a: "lines st = ls @ [l] \<and> chunks l = cs @ [c] \<and>
    cmd \<in> {utf32 ''fill-color'', utf32 ''outline-color'', utf32 ''outline-thickness'',
            utf32 ''font''} \<and>
    ch CHR '']'' \<notin> set arg \<and>
    tokenize env colors st (ch CHR ''['' # cmd @ ch CHR '' '' # arg @ [ch CHR '']'']) =
      (None, st')"
  then have "ch CHR '']'' \<notin> set (cmd @ ch CHR '' '' # arg)"
    using command_chars by (auto simp add: ch_values)
  from tokenize_tag [OF this, of env colors st "[]"] a
  have h: "handle_tag env colors st (cmd @ ch CHR '' '' # arg) = (None, st')"
    by (auto split: prod.splits option.splits)
  from a have cmd: "cmd \<in> {utf32 ''fill-color'', utf32 ''outline-color'',
      utf32 ''outline-thickness'', utf32 ''font''}"
    by simp
  show "current_format st' =
      (if cmd = utf32 ''fill-color''
       then (current_format st)\<lparr>fill_color := color_from_string colors (toAnsiString env arg)\<rparr>
       else if cmd = utf32 ''outline-color''
       then (current_format st)
              \<lparr>outline_color := color_from_string colors (toAnsiString env arg)\<rparr>
       else if cmd = utf32 ''outline-thickness''
       then (current_format st)\<lparr>outline_thickness := the (stof env (toAnsiString env arg))\<rparr>
       else (current_format st)\<lparr>font := Some (toAnsiString env arg)\<rparr>)"
    by (rule style_tag_format(1) [OF cmd h])
  have "lines st' =
      (if chunk_text c \<noteq> []
       then ls @ [l\<lparr>chunks := cs @ [c, new_chunk (current_format st')]\<rparr>]
       else ls @ [l\<lparr>chunks := cs @ [c\<lparr>chunk_format := current_format st'\<rparr>]\<rparr>])"
    using a h
    by (intro style_tag_lines [where cmd = cmd and arg = arg and env = env and colors = colors])
      simp_all
  then show "lines st' =
      (if chunk_text c \<noteq> []
       then ls @ [l\<lparr>chunks := cs @ [c, \<lparr>chunk_format = current_format st', chunk_text = []\<rparr>]\<rparr>]
       else ls @ [l\<lparr>chunks := cs @ [c\<lparr>chunk_format := current_format st'\<rparr>]\<rparr>])"
    unfolding new_chunk_def .
  assume "cmd = utf32 ''outline-thickness''"
  then show "stof env (toAnsiString env arg) \<noteq> None"
    using style_tag_format(2) [OF cmd h] by simp
next
  assume a: "lines st = ls @ [l] \<and> ch CHR '']'' \<notin> set arg \<and>
    tokenize env colors st (ch CHR ''['' # utf32 ''align'' @ ch CHR '' '' # arg @ [ch CHR '']'']) =
      (None, st')"
  then have "ch CHR '']'' \<notin> set (utf32 ''align'' @ ch CHR '' '' # arg)"
    using command_chars by (auto simp add: ch_values)
  from tokenize_tag [OF this, of env colors st "[]"] a
  have h: "handle_tag env colors st (utf32 ''align'' @ ch CHR '' '' # arg) = (None, st')"
    by (auto split: prod.splits option.splits)
  from a have l: "lines st = ls @ [l]"
    by simp
  show "current_format st' = current_format st"
    using align_tag_keeps_runs [OF l h] by simp
  show "\<exists>al. lines st' = ls @ [l\<lparr>alignment := al\<rparr>]"
    using align_tag_keeps_runs [OF l h] by simp
qed

theorem run_splitting_witness:
  "tokenize (example_env 1) default_colors
       (append_text (ch CHR ''a'') (initial_state {})) [ch CHR ''*''] =
     (None, toggle Bold (append_text (ch CHR ''a'') (initial_state {}))) \<and>
   current_format (toggle Bold (append_text (ch CHR ''a'') (initial_state {}))) =
     default_format\<lparr>style_flags := Bold\<rparr> \<and>
   lines (toggle Bold (append_text (ch CHR ''a'') (initial_state {}))) =
     [\<lparr>chunks = [\<lparr>chunk_format = default_format, chunk_text = [ch CHR ''a'']\<rparr>,
                 \<lparr>chunk_format = default_format\<lparr>style_flags := Bold\<rparr>, chunk_text = []\<rparr>],
       alignment = align_left\<rparr>] \<and>
   current_format (snd (tokenize (example_env 1) default_colors (initial_state {})
       (utf32 ''[fill-color red]''))) = default_format\<lparr>fill_color := Red\<rparr> \<and>
   lines (snd (tokenize (example_env 1) default_colors (initial_state {})
       (utf32 ''[fill-color red]''))) =
     [\<lparr>chunks = [\<lparr>chunk_format = default_format\<lparr>fill_color := Red\<rparr>, chunk_text = []\<rparr>],
       alignment = align_left\<rparr>] \<and>
   current_format (snd (tokenize (example_env 1) default_colors
       (append_text (ch CHR ''a'') (initial_state {})) (utf32 ''[outline-thickness 1.5]''))) =
     default_format\<lparr>outline_thickness := 3 / 2\<rparr> \<and>
   lines (snd (tokenize (example_env 1) default_colors
       (append_text (ch CHR ''a'') (initial_state {})) (utf32 ''[outline-thickness 1.5]''))) =
     [\<lparr>chunks = [\<lparr>chunk_format = default_format, chunk_text = [ch CHR ''a'']\<rparr>,
                 \<lparr>chunk_format = default_format\<lparr>outline_thickness := 3 / 2\<rparr>, chunk_text = []\<rparr>],
       alignment = align_left\<rparr>] \<and>
   (\<exists>al. lines (snd (tokenize (example_env 1) default_colors
       (append_text (ch CHR ''a'') (initial_state {})) (utf32 ''[align center]''))) =
     [\<lparr>chunks = [\<lparr>chunk_format = default_format, chunk_text = [ch CHR ''a'']\<rparr>],
       alignment = al\<rparr>])"
proof -
  let ?env = "example_env 1"
  let ?s0 = "initial_state {}"
  let ?sa = "append_text (ch CHR ''a'') (initial_state {})"
  let ?ca = "\<lparr>chunk_format = default_format, chunk_text = [ch CHR ''a'']\<rparr>"
  let ?la = "\<lparr>chunks = [?ca], alignment = align_left\<rparr>"
  let ?st1 = "toggle Bold ?sa"
  let ?st2 = "snd (tokenize ?env default_colors ?s0 (utf32 ''[fill-color red]''))"
  let ?st3 = "snd (tokenize ?env default_colors ?sa (utf32 ''[align center]''))"
  let ?st4 = "snd (tokenize ?env default_colors ?sa (utf32 ''[outline-thickness 1.5]''))"
  have sa: "lines ?sa = [] @ [?la] \<and> chunks ?la = [] @ [?ca]" "current_format ?sa = default_format"
    by (simp_all add: append_text_def initial_state_def map_back_def new_line_def new_chunk_def)
  have s0: "lines ?s0 = [] @ [new_line default_format] \<and>
      chunks (new_line default_format) = [] @ [new_chunk default_format]"
      "current_format ?s0 = default_format"
    by (simp_all add: initial_state_def new_line_def)
  have t2: "tokenize ?env default_colors ?s0
      (ch CHR ''['' # utf32 ''fill-color'' @ ch CHR '' '' # utf32 ''red'' @ [ch CHR '']'']) =
      (None, ?st2)"
    by code_simp
  have t3: "tokenize ?env default_colors ?sa
      (ch CHR ''['' # utf32 ''align'' @ ch CHR '' '' # utf32 ''center'' @ [ch CHR '']'']) =
      (None, ?st3)"
    by code_simp
  have t4: "tokenize ?env default_colors ?sa
      (ch CHR ''['' # utf32 ''outline-thickness'' @ ch CHR '' '' # utf32 ''1.5'' @ [ch CHR '']'']) =
      (None, ?st4)"
    by code_simp
  have no: "ch CHR '']'' \<notin> set (utf32 ''red'')" "ch CHR '']'' \<notin> set (utf32 ''center'')"
    "ch CHR '']'' \<notin> set (utf32 ''1.5'')"
    by (simp_all add: utf32_def ch_def)
  have ev: "color_from_string default_colors (toAnsiString ?env (utf32 ''red'')) = Red"
    "stof ?env (toAnsiString ?env (utf32 ''1.5'')) = Some (3 / 2)"
    by code_simp+
  have bd: "Regular XOR Bold = Bold"
    by (simp add: Regular_def)
  have 1: "tokenize ?env default_colors ?sa [ch CHR ''*''] = (None, ?st1) \<and>
      current_format ?st1 = default_format\<lparr>style_flags := Bold\<rparr> \<and>
      lines ?st1 = [\<lparr>chunks = [?ca, \<lparr>chunk_format = default_format\<lparr>style_flags := Bold\<rparr>,
        chunk_text = []\<rparr>], alignment = align_left\<rparr>]"
    using sa
      run_splitting [where st = ?sa and ls = "[]" and l = ?la and cs = "[]" and c = ?ca
        and frag = "[ch CHR ''*'']" and k = Bold and env = ?env and colors = default_colors
        and st' = ?st1, THEN conjunct1]
    by (simp add: default_format_def bd del: tokenize.simps)
  have 2: "current_format ?st2 = default_format\<lparr>fill_color := Red\<rparr> \<and> lines ?st2 =
     [\<lparr>chunks = [\<lparr>chunk_format = default_format\<lparr>fill_color := Red\<rparr>, chunk_text = []\<rparr>],
       alignment = align_left\<rparr>]"
    using s0 t2 no ev
      run_splitting [where st = ?s0 and ls = "[]" and l = "new_line default_format"
        and cs = "[]" and c = "new_chunk default_format" and cmd = "utf32 ''fill-color''"
        and arg = "utf32 ''red''" and env = ?env and colors = default_colors
        and st' = ?st2, THEN conjunct2, THEN conjunct1]
    by (simp add: new_line_def new_chunk_def utf32_def del: tokenize.simps)
  have 4: "current_format ?st4 = default_format\<lparr>outline_thickness := 3 / 2\<rparr> \<and> lines ?st4 =
     [\<lparr>chunks = [?ca, \<lparr>chunk_format = default_format\<lparr>outline_thickness := 3 / 2\<rparr>,
        chunk_text = []\<rparr>], alignment = align_left\<rparr>]"
    using sa t4 no ev command_distinct
      run_splitting [where st = ?sa and ls = "[]" and l = ?la
        and cs = "[]" and c = ?ca and cmd = "utf32 ''outline-thickness''"
        and arg = "utf32 ''1.5''" and env = ?env and colors = default_colors
        and st' = ?st4, THEN conjunct2, THEN conjunct1]
    by (simp add: utf32_def del: tokenize.simps)
  have 3: "\<exists>al. lines ?st3 = [\<lparr>chunks = [?ca], alignment = al\<rparr>]"
    using sa t3 no
      run_splitting [where st = ?sa and ls = "[]" and l = ?la
        and arg = "utf32 ''center''" and env = ?env and colors = default_colors
        and st' = ?st3, THEN conjunct2, THEN conjunct2]
    by (simp add: utf32_def del: tokenize.simps)
  show ?thesis
    using 1 2 3 4 by (simp only:)
qed

text \<open>
  Claim C7. Two consecutive occurrences of one toggle character leave the style cursor
  (and the font cache) as they were. The chunk that receives the text behind the pair
  carries the cursor's value from before the pair: it is the current chunk restyled to
  it when the current chunk had no text, and a new chunk with that format otherwise.
\<close>

theorem double_toggle:
  "(c0, k) \<in> {(ch CHR ''/'', Italic), (ch CHR ''*'', Bold), (ch CHR ''_'', Underlined),
               (ch CHR ''~'', StrikeThrough)} \<and>
   st' = toggle k (toggle k st) \<longrightarrow>
     tokenize env colors st [c0, c0] = (None, st') \<and>
     current_format st' = current_format st \<and> fonts st' = fonts st \<and>
     (\<forall>rest. tokenize env colors st (c0 # c0 # rest) = tokenize env colors st' rest) \<and>
     chunk_format (current_chunk st') = current_format st \<and>
     (\<forall>ls l cs c. lines st = ls @ [l] \<and> chunks l = cs @ [c] \<longrightarrow>
        lines st' =
          (if chunk_text c \<noteq> [] then ls @ [l\<lparr>chunks := cs @ [c, new_chunk (current_format st)]\<rparr>]
           else ls @ [l\<lparr>chunks := cs @ [c\<lparr>chunk_format := current_format st\<rparr>]\<rparr>]))"
proof (intro impI)
  assume a: "(c0, k) \<in> {(ch CHR ''/'', Italic), (ch CHR ''*'', Bold), (ch CHR ''_'', Underlined),
               (ch CHR ''~'', StrikeThrough)} \<and>
   st' = toggle k (toggle k st)"
  then have step: "\<And>s rest. tokenize env colors s (c0 # rest) = tokenize env colors (toggle k s) rest"
    by (auto simp add: tokenize_toggle_chars simp del: tokenize.simps(2))
  from a have st': "st' = toggle k (toggle k st)"
    by simp
  have tk: "tokenize env colors st [c0, c0] = (None, st')"
    by (simp add: step st' del: tokenize.simps(2))
  have cf: "current_format st' = current_format st"
    unfolding st' by (simp add: toggle_current_format xor.assoc)
  have fs: "fonts st' = fonts st"
    unfolding st' by (simp add: toggle_def apply_formatting_others)
  have "chunk_format (current_chunk (toggle k (toggle k st))) =
      current_format (toggle k (toggle k st))"
    by (simp add: toggle_def [of k "toggle k st"] apply_formatting_current_chunk
        apply_formatting_others)
  then have cc: "chunk_format (current_chunk st') = current_format st"
    using cf by (simp add: st')
  have ln: "lines st' =
      (if chunk_text c \<noteq> [] then ls @ [l\<lparr>chunks := cs @ [c, new_chunk (current_format st)]\<rparr>]
       else ls @ [l\<lparr>chunks := cs @ [c\<lparr>chunk_format := current_format st\<rparr>]\<rparr>])"
    if shape: "lines st = ls @ [l] \<and> chunks l = cs @ [c]" for ls l cs c
  proof (cases "chunk_text c = []")
    case True
    let ?c1 = "c\<lparr>chunk_format := current_format (toggle k st)\<rparr>"
    let ?l1 = "l\<lparr>chunks := cs @ [?c1]\<rparr>"
    have 1: "lines (toggle k st) = ls @ [?l1]"
      using shape True toggle_lines [of st ls l cs c k] by simp
    have "lines st' = ls @ [?l1\<lparr>chunks := cs @ [?c1\<lparr>chunk_format := current_format st'\<rparr>]\<rparr>]"
      unfolding st' using True toggle_lines [of "toggle k st" ls ?l1 cs ?c1 k] 1 by simp
    then show ?thesis
      using True cf by simp
  next
    case False
    let ?c1 = "new_chunk (current_format (toggle k st))"
    let ?l1 = "l\<lparr>chunks := (cs @ [c]) @ [?c1]\<rparr>"
    have 1: "lines (toggle k st) = ls @ [?l1]"
      using shape False toggle_lines [of st ls l cs c k] by simp
    have "lines st' = ls @ [?l1\<lparr>chunks := (cs @ [c]) @ [?c1\<lparr>chunk_format := current_format st'\<rparr>]\<rparr>]"
      unfolding st' using toggle_lines [of "toggle k st" ls ?l1 "cs @ [c]" ?c1 k] 1
      by (simp add: new_chunk_def)
    then show ?thesis
      using False cf by (simp add: new_chunk_def)
  qed
  show "tokenize env colors st [c0, c0] = (None, st') \<and>
     current_format st' = current_format st \<and> fonts st' = fonts st \<and>
     (\<forall>rest. tokenize env colors st (c0 # c0 # rest) = tokenize env colors st' rest) \<and>
     chunk_format (current_chunk st') = current_format st \<and>
     (\<forall>ls l cs c. lines st = ls @ [l] \<and> chunks l = cs @ [c] \<longrightarrow>
        lines st' =
          (if chunk_text c \<noteq> [] then ls @ [l\<lparr>chunks := cs @ [c, new_chunk (current_format st)]\<rparr>]
           else ls @ [l\<lparr>chunks := cs @ [c\<lparr>chunk_format := current_format st\<rparr>]\<rparr>]))"
    using tk cf fs cc ln by (simp add: step st' del: tokenize.simps(2))
qed

theorem double_toggle_witness:
  "tokenize (example_env 1) default_colors (initial_state {}) (utf32 ''**bold**'') =
     tokenize (example_env 1) default_colors (initial_state {}) (utf32 ''bold**'') \<and>
   current_format (toggle StrikeThrough (toggle StrikeThrough
     (append_text (ch CHR ''a'') (initial_state {})))) = default_format \<and>
   lines (toggle StrikeThrough (toggle StrikeThrough
     (append_text (ch CHR ''a'') (initial_state {})))) =
     [\<lparr>chunks = [\<lparr>chunk_format = default_format, chunk_text = [ch CHR ''a'']\<rparr>,
                 new_chunk default_format],
       alignment = align_left\<rparr>]"
proof -
  let ?env = "example_env 1"
  let ?s0 = "initial_state {}"
  let ?sa = "append_text (ch CHR ''a'') (initial_state {})"
  let ?ca = "\<lparr>chunk_format = default_format, chunk_text = [ch CHR ''a'']\<rparr>"
  let ?la = "\<lparr>chunks = [?ca], alignment = align_left\<rparr>"
  let ?st1 = "toggle Bold (toggle Bold ?s0)"
  let ?st2 = "toggle StrikeThrough (toggle StrikeThrough ?sa)"
  have sa: "lines ?sa = [] @ [?la] \<and> chunks ?la = [] @ [?ca]" "current_format ?sa = default_format"
    by (simp_all add: append_text_def initial_state_def map_back_def new_line_def new_chunk_def)
  have s0: "lines ?s0 = [] @ [new_line default_format] \<and>
      chunks (new_line default_format) = [] @ [new_chunk default_format]"
    "current_format ?s0 = default_format" "fonts ?s0 = {}"
    by (simp_all add: initial_state_def new_line_def)
  have t1: "(ch CHR ''*'', Bold) \<in> {(ch CHR ''/'', Italic), (ch CHR ''*'', Bold),
        (ch CHR ''_'', Underlined), (ch CHR ''~'', StrikeThrough)} \<and>
      ?st1 = toggle Bold (toggle Bold ?s0)"
    by simp
  have t2: "(ch CHR ''~'', StrikeThrough) \<in> {(ch CHR ''/'', Italic), (ch CHR ''*'', Bold),
        (ch CHR ''_'', Underlined), (ch CHR ''~'', StrikeThrough)} \<and>
      ?st2 = toggle StrikeThrough (toggle StrikeThrough ?sa)"
    by simp
  note d1 = double_toggle [where st = ?s0 and env = ?env and colors = default_colors
      and st' = ?st1 and ?c0.0 = "ch CHR ''*''" and k = Bold, THEN mp, OF t1]
  note d2 = double_toggle [where st = ?sa and env = ?env and colors = default_colors
      and st' = ?st2 and ?c0.0 = "ch CHR ''~''" and k = StrikeThrough, THEN mp, OF t2]
  have "lines ?st1 = lines ?s0"
    using d1 s0 by (simp add: new_line_def new_chunk_def del: tokenize.simps(2))
  then have "?st1 = ?s0"
    using d1 s0 by (simp del: tokenize.simps(2))
  then have 1: "tokenize ?env default_colors ?s0 (utf32 ''**bold**'') =
      tokenize ?env default_colors ?s0 (utf32 ''bold**'')"
    using d1 by (simp add: utf32_def del: tokenize.simps(2))
  have 2: "current_format ?st2 = default_format"
    using d2 sa by (simp del: tokenize.simps(2))
  have 3: "lines ?st2 = [\<lparr>chunks = [?ca, new_chunk default_format], alignment = align_left\<rparr>]"
    using d2 sa by (simp del: tokenize.simps(2))
  show ?thesis
    using 1 2 3 by (simp only:)
qed

section \<open>Unrecognised tags (claim C10)\<close>

text \<open>
  A tag whose command is none of the five and whose body holds a space falls through
  the chain of comparisons: the state is unchanged and the loop goes on behind the
  closing bracket.
\<close>

lemma unknown_tag_with_space_ignored:
  assumes "ch CHR '' '' \<notin> set cmd" and "ch CHR '']'' \<notin> set cmd" and "ch CHR '']'' \<notin> set arg"
    and "cmd \<notin> {utf32 ''fill-color'', utf32 ''outline-color'', utf32 ''outline-thickness'',
           utf32 ''font'', utf32 ''align''}"
  shows "tokenize env colors st (ch CHR ''['' # cmd @ ch CHR '' '' # arg @ ch CHR '']'' # rest) =
     tokenize env colors st rest"
proof -
  have "ch CHR '']'' \<notin> set (cmd @ ch CHR '' '' # arg)"
    using assms by (simp add: ch_values)
  from tokenize_tag [OF this, of env colors st rest] show ?thesis
    using assms(4) by (simp add: handle_tag_command [OF assms(1)] del: tokenize.simps(2))
qed

text \<open>
  A tag without a space, whatever its command, stops the loop: \<^verbatim>\<open>command_end\<close> is
  \<^verbatim>\<open>tag_end\<close>, and the argument is to be built from the range that starts one behind
  \<^verbatim>\<open>tag_end\<close> and ends at \<^verbatim>\<open>tag_end\<close>.
\<close>

lemma tag_without_space:
  assumes "ch CHR '' '' \<notin> set body" and "ch CHR '']'' \<notin> set body"
  shows "tokenize env colors st (ch CHR ''['' # body @ ch CHR '']'' # rest) =
     (Some LengthError, st)"
  using tokenize_tag [OF assms(2), of env colors st rest] assms(1)
  by (simp add: handle_tag_def del: tokenize.simps(2))

text \<open>
  Claim C10 at the well-terminated tag \<^verbatim>\<open>[b]\<close>, whose command \<^verbatim>\<open>b\<close> is none of the five: the
  tag is not ignored. The loop stops at it, \<^verbatim>\<open>set_source\<close> leaves with the exception and
  without texts, and the text behind the tag is never reached.
\<close>

theorem unknown_tag_without_space:
  "tokenize (example_env 1) default_colors (initial_state {}) (utf32 ''[b]bold'') =
     (Some LengthError, initial_state {}) \<and>
   set_source (example_env 1) default_colors {} empty_rich_text (utf32 ''[b]bold'') =
     (Some LengthError, {}, cleared empty_rich_text (utf32 ''[b]bold''))"
proof -
  have src: "utf32 ''[b]bold'' = ch CHR ''['' # utf32 ''b'' @ ch CHR '']'' # utf32 ''bold''"
    by (simp add: utf32_def)
  have "ch CHR '' '' \<notin> set (utf32 ''b'')" and "ch CHR '']'' \<notin> set (utf32 ''b'')"
    by (simp_all add: utf32_def ch_def)
  then have t: "tokenize (example_env 1) default_colors (initial_state {}) (utf32 ''[b]bold'') =
      (Some LengthError, initial_state {})"
    unfolding src by (rule tag_without_space)
  then show ?thesis
    by (simp add: set_source_tokenize_error initial_state_def del: tokenize.simps(2))
qed

section \<open>Fonts (claim C8)\<close>

lemma font_inv_initial: "font_inv (initial_state fs)"
  by (simp add: font_inv_def initial_state_def well_formed_def new_line_def new_chunk_def
      has_font_def default_format_def)

lemma well_formed_snoc:
  "well_formed ls \<Longrightarrow> \<exists>ls' l cs c. ls = ls' @ [l] \<and> chunks l = cs @ [c]"
proof -
  assume a: "well_formed ls"
  then have "ls \<noteq> []" by (simp add: well_formed_def)
  then obtain ls' l where ls: "ls = ls' @ [l]"
    by (metis append_butlast_last_id)
  with a have "chunks l \<noteq> []" by (simp add: well_formed_def)
  then obtain cs c where "chunks l = cs @ [c]"
    by (metis append_butlast_last_id)
  with ls show ?thesis by blast
qed

lemma font_inv_apply_formatting:
  assumes "font_inv st" and "font (current_format st) \<noteq> None \<longrightarrow> font f \<noteq> None"
    and "lines s = lines st" and "current_format s = f"
  shows "font_inv (apply_formatting s)"
proof -
  from assms(1) obtain ls l cs c where shape: "lines st = ls @ [l]" "chunks l = cs @ [c]"
    using well_formed_snoc unfolding font_inv_def by blast
  have shape': "lines s = ls @ [l]"
    using shape assms(3) by simp
  have wf: "list_all (\<lambda>l. chunks l \<noteq> []) ls"
    using assms(1) shape by (simp add: font_inv_def well_formed_def)
  have ln: "lines (apply_formatting s) =
     (if chunk_text c \<noteq> [] then ls @ [l\<lparr>chunks := cs @ [c, new_chunk f]\<rparr>]
      else ls @ [l\<lparr>chunks := cs @ [c\<lparr>chunk_format := f\<rparr>]\<rparr>])"
    using apply_formatting_lines [OF shape' shape(2)] assms(4) by simp
  have cf: "current_format (apply_formatting s) = f"
    using assms(4) by (simp add: apply_formatting_others)
  show ?thesis
  proof (cases "chunk_text c \<noteq> []")
    case True
    then show ?thesis
      using assms(1,2) shape wf unfolding font_inv_def ln cf
      by (cases ls; cases cs)
        (auto simp add: well_formed_def all_have_font_def has_font_def new_chunk_def)
  next
    case False
    then show ?thesis
      using assms(1,2) shape wf unfolding font_inv_def ln cf
      by (cases ls; cases cs)
        (auto simp add: well_formed_def all_have_font_def has_font_def)
  qed
qed

lemma font_inv_toggle: "font_inv st \<Longrightarrow> font_inv (toggle k st)"
  unfolding toggle_def by (rule font_inv_apply_formatting [where st = st]) simp_all

lemma font_inv_append_text:
  assumes "font_inv st"
  shows "font_inv (append_text x st)"
proof -
  from assms obtain ls l cs c where shape: "lines st = ls @ [l]" "chunks l = cs @ [c]"
    using well_formed_snoc unfolding font_inv_def by blast
  have wf: "list_all (\<lambda>l. chunks l \<noteq> []) ls"
    using assms shape by (simp add: font_inv_def well_formed_def)
  have cf: "current_format (append_text x st) = current_format st"
    by (simp add: append_text_def)
  show ?thesis
    using assms shape wf unfolding font_inv_def append_text_lines [OF shape] cf
    by (cases ls; cases cs)
      (auto simp add: well_formed_def all_have_font_def has_font_def)
qed

lemma font_inv_push_line:
  assumes "font_inv st"
  shows "font_inv (push_line st)"
  using assms unfolding font_inv_def push_line_def
  by (cases "lines st")
    (auto simp add: well_formed_def all_have_font_def has_font_def new_line_def new_chunk_def)

lemma font_inv_set_alignment:
  assumes "font_inv st"
  shows "font_inv (set_alignment al st)"
proof -
  from assms obtain ls l where shape: "lines st = ls @ [l]"
    using well_formed_snoc unfolding font_inv_def by blast
  show ?thesis
    using assms shape unfolding font_inv_def set_alignment_def map_back_def
    by (cases ls) (auto simp add: well_formed_def all_have_font_def)
qed

lemma font_inv_fonts_update: "font_inv (st\<lparr>fonts := fs\<rparr>) = font_inv st"
  by (simp add: font_inv_def)

lemma font_inv_handle_tag:
  assumes "font_inv st" and "handle_tag env colors st body = (None, st')"
  shows "font_inv st'"
proof -
  have 1: "font_inv (apply_formatting (st\<lparr>current_format := f\<rparr>))"
    if "font (current_format st) \<noteq> None \<longrightarrow> font f \<noteq> None" for f
    using assms(1) that by (rule font_inv_apply_formatting) simp_all
  have 2: "font_inv (apply_formatting (st\<lparr>fonts := fs, current_format := f\<rparr>))"
    if "font (current_format st) \<noteq> None \<longrightarrow> font f \<noteq> None" for f fs
    using assms(1) that by (rule font_inv_apply_formatting) simp_all
  show ?thesis
    using assms 1 2 font_inv_set_alignment
    unfolding handle_tag_def Let_def
    by (auto split: if_splits option.splits)
qed

text \<open>The loop keeps the invariant.\<close>

lemma font_inv_tokenize:
  "font_inv st \<Longrightarrow> tokenize env colors st src = (None, st') \<Longrightarrow> font_inv st'"
proof (induction env colors st src rule: tokenize.induct)
  case (1 env colors st)
  then show ?case by simp
next
  case (2 env colors st c rest)
  let ?open = "\<lambda>x. x \<noteq> ch CHR '']''"
  consider (italic) "c = ch CHR ''/''" | (bold) "c = ch CHR ''*''" | (under) "c = ch CHR ''_''"
    | (strike) "c = ch CHR ''~''" | (tag) "c = ch CHR ''[''" | (esc) "c = ch CHR 0x5C"
    | (nl) "c = ch CHR 0x0A"
    | (other) "c \<noteq> ch CHR ''/''" "c \<noteq> ch CHR ''*''" "c \<noteq> ch CHR ''_''" "c \<noteq> ch CHR ''~''"
        "c \<noteq> ch CHR ''[''" "c \<noteq> ch CHR 0x5C" "c \<noteq> ch CHR 0x0A"
    by blast
  then show ?case
  proof cases
    case italic
    then have "tokenize env colors (toggle Italic st) rest = (None, st')"
      using "2.prems"(2) by (simp add: ch_values)
    then show ?thesis
      using "2.IH"(1) [OF italic font_inv_toggle [OF "2.prems"(1)] ] by simp
  next
    case bold
    then have n: "c \<noteq> ch CHR ''/''"
      by (simp add: ch_values)
    from bold have "tokenize env colors (toggle Bold st) rest = (None, st')"
      using "2.prems"(2) by (simp add: ch_values)
    then show ?thesis
      using "2.IH"(2) [OF n bold font_inv_toggle [OF "2.prems"(1)] ] by simp
  next
    case under
    then have n: "c \<noteq> ch CHR ''/''" "c \<noteq> ch CHR ''*''"
      by (simp_all add: ch_values)
    from under have "tokenize env colors (toggle Underlined st) rest = (None, st')"
      using "2.prems"(2) by (simp add: ch_values)
    then show ?thesis
      using "2.IH"(3) [OF n under font_inv_toggle [OF "2.prems"(1)] ] by simp
  next
    case strike
    then have n: "c \<noteq> ch CHR ''/''" "c \<noteq> ch CHR ''*''" "c \<noteq> ch CHR ''_''"
      by (simp_all add: ch_values)
    from strike have "tokenize env colors (toggle StrikeThrough st) rest = (None, st')"
      using "2.prems"(2) by (simp add: ch_values)
    then show ?thesis
      using "2.IH"(4) [OF n strike font_inv_toggle [OF "2.prems"(1)] ] by simp
  next
    case tag
    then have n: "c \<noteq> ch CHR ''/''" "c \<noteq> ch CHR ''*''" "c \<noteq> ch CHR ''_''" "c \<noteq> ch CHR ''~''"
      by (simp_all add: ch_values)
    from "2.prems"(2) tag have mem: "ch CHR '']'' \<in> set rest"
      by (auto simp: ch_values split: if_splits)
    then have nmem: "\<not> ch CHR '']'' \<notin> set rest"
      by simp
    obtain e s1 where ht: "handle_tag env colors st (takeWhile ?open rest) = (e, s1)"
      by (cases "handle_tag env colors st (takeWhile ?open rest)") auto
    with "2.prems"(2) tag mem have e: "e = None"
      and t: "tokenize env colors s1 (tl (dropWhile ?open rest)) = (None, st')"
      by (auto simp add: ch_values split: option.splits)
    have inv1: "font_inv s1"
      using font_inv_handle_tag [OF "2.prems"(1)] ht e by simp
    show ?thesis
      using "2.IH"(5) [OF n tag nmem ht [unfolded e, symmetric] refl inv1 t] .
  next
    case esc
    then have n: "c \<noteq> ch CHR ''/''" "c \<noteq> ch CHR ''*''" "c \<noteq> ch CHR ''_''" "c \<noteq> ch CHR ''~''"
      "c \<noteq> ch CHR ''[''"
      by (simp_all add: ch_values)
    from "2.prems"(2) esc obtain x rest' where rest: "rest = x # rest'" and x: "escapable x"
      and t: "tokenize env colors (append_text x st) rest' = (None, st')"
      by (cases rest) (auto simp add: ch_values split: if_splits)
    show ?thesis
      using "2.IH"(6) [OF n esc rest x font_inv_append_text [OF "2.prems"(1)] t] .
  next
    case nl
    then have n: "c \<noteq> ch CHR ''/''" "c \<noteq> ch CHR ''*''" "c \<noteq> ch CHR ''_''" "c \<noteq> ch CHR ''~''"
      "c \<noteq> ch CHR ''[''" "c \<noteq> ch CHR 0x5C"
      by (simp_all add: ch_values)
    from nl have t: "tokenize env colors (push_line st) rest = (None, st')"
      using "2.prems"(2) by (simp add: ch_values)
    show ?thesis
      using "2.IH"(7) [OF n nl font_inv_push_line [OF "2.prems"(1)] t] .
  next
    case other
    then have t: "tokenize env colors (append_text c st) rest = (None, st')"
      using "2.prems"(2) by simp
    show ?thesis
      using "2.IH"(8) [OF other font_inv_append_text [OF "2.prems"(1)] t] .
  qed
qed

text \<open>The only exception of the layout loops is the missing font.\<close>

lemma layout_chunks_error:
  "layout_chunks env s cs = (Some e, s') \<Longrightarrow> e = MissingFont"
  by (induction cs arbitrary: s) (auto split: option.splits)

lemma layout_chunks_all_fonts:
  "list_all has_font cs \<Longrightarrow> fst (layout_chunks env s cs) = None"
  by (induction cs arbitrary: s) (auto simp add: has_font_def)

lemma layout_chunks_missing:
  "\<not> list_all has_font cs \<Longrightarrow> fst (layout_chunks env s cs) = Some MissingFont"
  by (induction cs arbitrary: s) (auto simp add: has_font_def split: option.splits)

lemma layout_lines_all_fonts:
  "all_have_font ls \<Longrightarrow> fst (layout_lines env s ls) = None"
proof (induction ls arbitrary: s)
  case Nil
  then show ?case by simp
next
  case (Cons l ls)
  then have a: "list_all has_font (chunks l)" and b: "all_have_font ls"
    by (simp_all add: all_have_font_def)
  obtain e s1 where r: "layout_chunks env (s\<lparr>line_spacing := 0\<rparr>) (chunks l) = (e, s1)"
    by (cases "layout_chunks env (s\<lparr>line_spacing := 0\<rparr>) (chunks l)") auto
  with layout_chunks_all_fonts [OF a, of env "s\<lparr>line_spacing := 0\<rparr>"] have "e = None"
    by simp
  then show ?case
    using r Cons.IH [OF b] by simp
qed

lemma layout_lines_missing:
  "\<not> all_have_font ls \<Longrightarrow> fst (layout_lines env s ls) = Some MissingFont"
proof (induction ls arbitrary: s)
  case Nil
  then show ?case by (simp add: all_have_font_def)
next
  case (Cons l ls)
  obtain e s1 where r: "layout_chunks env (s\<lparr>line_spacing := 0\<rparr>) (chunks l) = (e, s1)"
    by (cases "layout_chunks env (s\<lparr>line_spacing := 0\<rparr>) (chunks l)") auto
  show ?case
  proof (cases "list_all has_font (chunks l)")
    case True
    with Cons.prems have b: "\<not> all_have_font ls"
      by (simp add: all_have_font_def)
    from layout_chunks_all_fonts [OF True, of env "s\<lparr>line_spacing := 0\<rparr>"] r have "e = None"
      by simp
    then show ?thesis
      using r Cons.IH [OF b] by simp
  next
    case False
    from layout_chunks_missing [OF False, of env "s\<lparr>line_spacing := 0\<rparr>"] r
    have "e = Some MissingFont"
      by simp
    then show ?thesis
      using r by simp
  qed
qed

text \<open>A first chunk without a font stops the layout before anything is built.\<close>

lemma layout_lines_first_chunk:
  assumes "well_formed ls" and "\<not> has_font (hd (chunks (hd ls)))"
  shows "layout_lines env s ls = (Some MissingFont, s\<lparr>line_spacing := 0\<rparr>)"
proof -
  from assms(1) obtain l rest where ls: "ls = l # rest"
    by (cases ls) (auto simp add: well_formed_def)
  with assms(1) obtain c cs where cs: "chunks l = c # cs"
    by (cases "chunks l") (auto simp add: well_formed_def)
  from assms(2) have "font (chunk_format c) = None"
    by (simp add: ls cs has_font_def)
  then show ?thesis
    by (simp add: ls cs)
qed

text \<open>
  Claim C8. If the loop over the source ends without an exception and some chunk of
  some line has no font, \<^verbatim>\<open>set_source\<close> leaves with \<open>MissingFont\<close>; the object holds no text
  and its bounds are the empty rectangle, and the constructor yields no object.
  Conversely, when every chunk has a font the layout raises nothing.
\<close>

theorem missing_font:
  "(tokenize env colors (initial_state fs) src = (None, st) \<and> \<not> all_have_font (lines st) \<longrightarrow>
      set_source env colors fs rt src = (Some MissingFont, fonts st, cleared rt src) \<and>
      texts (snd (snd (set_source env colors fs rt src))) = [] \<and>
      bounds (snd (snd (set_source env colors fs rt src))) = zero_rect \<and>
      snd (new_rich_text env colors fs src sz) = Inl MissingFont) \<and>
   (tokenize env colors (initial_state fs) src = (None, st) \<and> all_have_font (lines st) \<longrightarrow>
      fst (set_source env colors fs rt src) = None) \<and>
   (\<not> all_have_font ls \<longrightarrow> fst (layout_lines env s ls) = Some MissingFont)"
proof (intro conjI impI)
  assume a: "tokenize env colors (initial_state fs) src = (None, st) \<and> \<not> all_have_font (lines st)"
  then have inv: "font_inv st"
    using font_inv_tokenize [OF font_inv_initial] by blast
  with a have "well_formed (lines st)" and "\<not> has_font (hd (chunks (hd (lines st))))"
    by (auto simp add: font_inv_def)
  then have "layout_lines env (layout_start rt src) (lines st) =
      (Some MissingFont, (layout_start rt src)\<lparr>line_spacing := 0\<rparr>)"
    by (rule layout_lines_first_chunk)
  with a show r: "set_source env colors fs rt src = (Some MissingFont, fonts st, cleared rt src)"
    by (simp add: set_source_def layout_start_def cleared_def)
  then show "texts (snd (snd (set_source env colors fs rt src))) = []"
    and "bounds (snd (snd (set_source env colors fs rt src))) = zero_rect"
    by (simp_all add: cleared_def)
  show "snd (new_rich_text env colors fs src sz) = Inl MissingFont"
  proof (rule new_rich_text_error)
    have "layout_lines env
        (layout_start \<lparr>texts = [], character_size = sz, source = [], bounds = zero_rect\<rparr> src)
        (lines st) =
      (Some MissingFont,
       (layout_start \<lparr>texts = [], character_size = sz, source = [], bounds = zero_rect\<rparr> src)
         \<lparr>line_spacing := 0\<rparr>)"
      using \<open>well_formed (lines st)\<close> \<open>\<not> has_font (hd (chunks (hd (lines st))))\<close>
      by (rule layout_lines_first_chunk)
    with a show "fst (set_source env colors fs
        \<lparr>texts = [], character_size = sz, source = [], bounds = zero_rect\<rparr> src) =
        Some MissingFont"
      by (simp add: set_source_def)
  qed
next
  assume a: "tokenize env colors (initial_state fs) src = (None, st) \<and> all_have_font (lines st)"
  then have "fst (layout_lines env (layout_start rt src) (lines st)) = None"
    by (simp add: layout_lines_all_fonts)
  with a show "fst (set_source env colors fs rt src) = None"
    by (auto simp add: set_source_def split: prod.splits)
next
  assume "\<not> all_have_font ls"
  then show "fst (layout_lines env s ls) = Some MissingFont"
    by (rule layout_lines_missing)
qed

theorem missing_font_witness:
  "set_source (example_env 1) default_colors {} empty_rich_text (utf32 ''a[font f]b'') =
     (Some MissingFont, {''f''}, cleared empty_rich_text (utf32 ''a[font f]b'')) \<and>
   snd (new_rich_text (example_env 1) default_colors {} (utf32 ''a[font f]b'') 30) =
     Inl MissingFont \<and>
   fst (set_source (example_env 1) default_colors {} empty_rich_text (utf32 ''[font f]ab'')) =
     None"
proof -
  let ?env = "example_env 1"
  let ?st1 = "snd (tokenize ?env default_colors (initial_state {}) (utf32 ''a[font f]b''))"
  let ?st2 = "snd (tokenize ?env default_colors (initial_state {}) (utf32 ''[font f]ab''))"
  have 1: "tokenize ?env default_colors (initial_state {}) (utf32 ''a[font f]b'') = (None, ?st1) \<and>
      \<not> all_have_font (lines ?st1)"
    by code_simp
  have f1: "fonts ?st1 = {''f''}"
    by code_simp
  have 2: "tokenize ?env default_colors (initial_state {}) (utf32 ''[font f]ab'') = (None, ?st2) \<and>
      all_have_font (lines ?st2)"
    by code_simp
  note m1 = missing_font [where env = ?env and colors = default_colors and fs = "{}"
      and src = "utf32 ''a[font f]b''" and st = ?st1 and rt = empty_rich_text and sz = 30,
      THEN conjunct1, THEN mp, OF 1]
  note m2 = missing_font [where env = ?env and colors = default_colors and fs = "{}"
      and src = "utf32 ''[font f]ab''" and st = ?st2 and rt = empty_rich_text,
      THEN conjunct2, THEN conjunct1, THEN mp, OF 2]
  show ?thesis
    using m1 m2 f1 by (simp only:) 
qed

section \<open>Newlines (claim C6)\<close>

text \<open>
  In \<^verbatim>\<open>set_source\<close> a newline opens a line whose only chunk has the cursor's format and
  no text; the cursor stays as it is.
\<close>

lemma newline_carries_cursor:
  "tokenize env colors st (ch CHR 0x0A # rest) = tokenize env colors (push_line st) rest"
  "current_format (push_line st) = current_format st"
  "lines (push_line st) =
     lines st @ [\<lparr>chunks = [\<lparr>chunk_format = current_format st, chunk_text = []\<rparr>],
                  alignment = align_left\<rparr>]"
  "chunk_format (current_chunk (push_line st)) = current_format st"
  by (simp_all add: ch_values push_line_def new_line_def new_chunk_def current_chunk_def)

text \<open>
  In \<^verbatim>\<open>set_string\<close> of \<^verbatim>\<open>src/src/rich_text.cpp\<close> (lines 116 to 118) the style cursor is
  the style and the colour of the last chunk, and a newline pushes a chunk that carries
  both and is marked as the start of a line.
\<close>

lemma newline_carries_back:
  "tokenize1 env colors cs (ch CHR 0x0A # rest) = tokenize1 env colors (push_newline_chunk cs) rest"
  "push_newline_chunk cs =
     cs @ [\<lparr>style_flags1 = style_flags1 (last cs), color1 = color1 (last cs),
            start_of_new_line = True, text1 = []\<rparr>]"
  by (simp_all add: ch_values push_newline_chunk_def)

text \<open>
  In \<^verbatim>\<open>set_string\<close> of \<^verbatim>\<open>src/include/card-gen/detail/rich_text.cpp\<close> (lines 124 to 126) a
  newline opens a line whose only chunk is \<^verbatim>\<open>chunk{}\<close>, regular and white, whatever the
  cursor is.
\<close>

lemma newline_drops_cursor:
  "tokenize0 env colors st (ch CHR 0x0A # rest) = tokenize0 env colors (push_line0 st) rest"
  "current_style_flags (push_line0 st) = current_style_flags st"
  "current_color (push_line0 st) = current_color st"
  "lines0 (push_line0 st) =
     lines0 st @ [\<lparr>chunks0 = [\<lparr>style_flags0 = Regular, color0 = White, text0 = []\<rparr>]\<rparr>]"
  by (simp_all add: ch_values push_line0_def default_chunk0_def)

text \<open>
  Claim C6 at the source \<^verbatim>\<open>*a\<close>, newline, \<^verbatim>\<open>b\<close>, in \<^verbatim>\<open>set_string\<close> of
  \<^verbatim>\<open>src/include/card-gen/detail/rich_text.cpp\<close>, whose newline case is at lines 124 to
  126: the cursor is bold at the newline and stays bold, but the chunk of the second
  line, which receives \<^verbatim>\<open>b\<close>, is regular. \<^verbatim>\<open>set_source\<close> gives that chunk the bold style,
  and so does \<^verbatim>\<open>set_string\<close> of \<^verbatim>\<open>src/src/rich_text.cpp\<close>.
\<close>

theorem set_string_newline_loses_style:
  "set_string_tokens (example_env 1) default_colors (utf32 ''*a'' @ ch CHR 0x0A # utf32 ''b'') =
     (None,
      \<lparr>current_style_flags = Bold, current_color = White,
       lines0 =
         [\<lparr>chunks0 = [\<lparr>style_flags0 = Regular, color0 = White, text0 = []\<rparr>,
                      \<lparr>style_flags0 = Bold, color0 = White, text0 = utf32 ''a''\<rparr>]\<rparr>,
          \<lparr>chunks0 = [\<lparr>style_flags0 = Regular, color0 = White, text0 = utf32 ''b''\<rparr>]\<rparr>]\<rparr>) \<and>
   map (map (\<lambda>c. (style_flags (chunk_format c), chunk_text c)) \<circ> chunks)
     (lines (snd (tokenize (example_env 1) default_colors (initial_state {})
        (utf32 ''*a'' @ ch CHR 0x0A # utf32 ''b'')))) =
     [ [(Bold, utf32 ''a'')], [(Bold, utf32 ''b'')] ] \<and>
   set_string_chunks (example_env 1) default_colors (utf32 ''*a'' @ ch CHR 0x0A # utf32 ''b'') =
     (None,
      [\<lparr>style_flags1 = Regular, color1 = White, start_of_new_line = False, text1 = []\<rparr>,
       \<lparr>style_flags1 = Bold, color1 = White, start_of_new_line = False, text1 = utf32 ''a''\<rparr>,
       \<lparr>style_flags1 = Bold, color1 = White, start_of_new_line = True, text1 = utf32 ''b''\<rparr>])"
  by code_simp

section \<open>Layout (claims C1 and C9)\<close>

lemma place_chunk_fields:
  "character_size (obj (place_chunk env s c f)) = character_size (obj s)"
  "source (obj (place_chunk env s c f)) = source (obj s)"
  "texts (obj (place_chunk env s c f)) =
     texts (obj s) @ [make_text (character_size (obj s)) c f (next_position s)]"
  "line_spacing (place_chunk env s c f) =
     max (line_spacing s) (getLineSpacing env f (character_size (obj s)))"
  "next_position (place_chunk env s c f) =
     findCharacterPos env (make_text (character_size (obj s)) c f (next_position s))
       (length (chunk_text c))"
  "bounds (obj (place_chunk env s c f)) =
     extend_bounds (bounds (obj s))
       (getGlobalBounds env (make_text (character_size (obj s)) c f (next_position s)))"
  by (simp_all add: place_chunk_def Let_def)



lemma layout_chunks_spacing:
  "layout_chunks env s cs = (None, s') \<Longrightarrow>
   line_spacing s' =
     Max (insert (line_spacing s) (chunk_spacing env (character_size (obj s)) ` set cs))"
proof (induction cs arbitrary: s)
  case Nil
  then show ?case by simp
next
  case (Cons c cs)
  from Cons.prems obtain f where f: "font (chunk_format c) = Some f"
    and r: "layout_chunks env (place_chunk env s c f) cs = (None, s')"
    by (cases "font (chunk_format c)") auto
  let ?A = "chunk_spacing env (character_size (obj s)) ` set cs"
  have "line_spacing s' =
      Max (insert (max (line_spacing s) (getLineSpacing env f (character_size (obj s)))) ?A)"
    using Cons.IH [OF r] by (simp add: place_chunk_fields)
  also have "\<dots> = Max (insert (line_spacing s)
      (insert (getLineSpacing env f (character_size (obj s))) ?A))"
    by (cases "?A = {}") (simp_all add: max.assoc)
  finally show ?case
    using f by (simp add: chunk_spacing_def)
qed









lemma layout_chunks_prefix:
  "layout_chunks env s cs = (e, s') \<Longrightarrow> \<exists>ts. texts (obj s') = texts (obj s) @ ts"
proof (induction cs arbitrary: s)
  case Nil
  then show ?case by simp
next
  case (Cons c cs)
  show ?case
  proof (cases "font (chunk_format c)")
    case None
    with Cons.prems show ?thesis by simp
  next
    case (Some f)
    with Cons.prems have "layout_chunks env (place_chunk env s c f) cs = (e, s')"
      by simp
    from Cons.IH [OF this] show ?thesis
      by (auto simp add: place_chunk_fields)
  qed
qed

lemma layout_lines_prefix:
  "layout_lines env s ls = (e, s') \<Longrightarrow> \<exists>ts. texts (obj s') = texts (obj s) @ ts"
proof (induction ls arbitrary: s)
  case Nil
  then show ?case by simp
next
  case (Cons l ls)
  obtain e1 s1 where r: "layout_chunks env (s\<lparr>line_spacing := 0\<rparr>) (chunks l) = (e1, s1)"
    by (cases "layout_chunks env (s\<lparr>line_spacing := 0\<rparr>) (chunks l)") auto
  from layout_chunks_prefix [OF r] obtain ts1 where ts1: "texts (obj s1) = texts (obj s) @ ts1"
    by auto
  show ?case
  proof (cases e1)
    case (Some a)
    with Cons.prems r have "s' = s1" by simp
    with ts1 show ?thesis by blast
  next
    case None
    with Cons.prems r
    have "layout_lines env (if ls \<noteq> [] then break_line s1 else s1) ls = (e, s')"
      by simp
    from Cons.IH [OF this] ts1 show ?thesis
      by (auto simp add: break_line_def split: if_splits)
  qed
qed

text \<open>The first text of a line stands at the rounded pen position the line starts with.\<close>

lemma layout_lines_first_text:
  assumes "layout_lines env s (l # rest) = (e, s')" and "chunks l = c # cs"
    and "font (chunk_format c) = Some f"
  shows "texts (obj s') ! length (texts (obj s)) =
     make_text (character_size (obj s)) c f (next_position s)"
proof -
  let ?s1 = "place_chunk env (s\<lparr>line_spacing := 0\<rparr>) c f"
  let ?t = "make_text (character_size (obj s)) c f (next_position s)"
  obtain e1 s2 where r: "layout_chunks env ?s1 cs = (e1, s2)"
    by (cases "layout_chunks env ?s1 cs") auto
  from layout_chunks_prefix [OF r] obtain ts1 where ts1: "texts (obj s2) = (texts (obj s) @ [?t]) @ ts1"
    by (auto simp add: place_chunk_fields)
  have "\<exists>ts. texts (obj s') = (texts (obj s) @ [?t]) @ ts"
  proof (cases e1)
    case (Some a)
    with assms r have "s' = s2" by simp
    with ts1 show ?thesis by blast
  next
    case None
    with assms r
    have "layout_lines env (if rest \<noteq> [] then break_line s2 else s2) rest = (e, s')"
      by simp
    from layout_lines_prefix [OF this] ts1 show ?thesis
      by (auto simp add: break_line_def split: if_splits)
  qed
  then show ?thesis
    by (auto simp add: nth_append)
qed

lemma roundf_zero: "roundf 0 = 0"
proof -
  have "\<lfloor>(1::rat) / 2\<rfloor> = 0"
    by (rule floor_unique) simp_all
  then show ?thesis
    by (simp add: roundf_def)
qed

text \<open>The source of two lines with a font: \<^verbatim>\<open>[font\<close> \<open>name\<close>\<^verbatim>\<open>]a\<close>, newline, \<^verbatim>\<open>b\<close>.\<close>

lemma two_line_tokens:
  assumes "ch CHR '']'' \<notin> set name" and "toAnsiString env name = f"
    and "f \<in> fs \<or> loadFromFile env f"
  shows "tokenize env colors (initial_state fs)
      (ch CHR ''['' # (utf32 ''font'' @ ch CHR '' '' # name) @
         ch CHR '']'' # [ch CHR ''a'', ch CHR 0x0A, ch CHR ''b'']) =
     (None,
      \<lparr>current_format = default_format\<lparr>font := Some f\<rparr>,
       lines =
         [\<lparr>chunks = [\<lparr>chunk_format = default_format\<lparr>font := Some f\<rparr>,
                      chunk_text = [ch CHR ''a'']\<rparr>], alignment = align_left\<rparr>,
          \<lparr>chunks = [\<lparr>chunk_format = default_format\<lparr>font := Some f\<rparr>,
                      chunk_text = [ch CHR ''b'']\<rparr>], alignment = align_left\<rparr>],
       fonts = insert f fs\<rparr>)"
proof -
  have no: "ch CHR '']'' \<notin> set (utf32 ''font'' @ ch CHR '' '' # name)"
    using assms(1) command_chars by (simp add: ch_values)
  have ht: "handle_tag env colors (initial_state fs) (utf32 ''font'' @ ch CHR '' '' # name) =
      (None, apply_formatting ((initial_state fs)\<lparr>fonts := insert f fs,
         current_format := default_format\<lparr>font := Some f\<rparr>\<rparr>))"
    using assms(2,3)
    by (auto simp add: handle_tag_command [OF command_chars(7)] command_distinct Let_def
        initial_state_def)
  show ?thesis
    unfolding tokenize_tag [OF no] ht
    by (simp add: apply_formatting_def initial_state_def new_line_def new_chunk_def map_back_def
        append_text_def push_line_def ch_def)
qed

text \<open>
  The \<^verbatim>\<open>float\<close> sum on some values: integers and halves of this size are kept, one tenth
  is not a \<^verbatim>\<open>float\<close>, halfway cases go to the even significand, and the sum of 1 and the
  \<^verbatim>\<open>float\<close> next below one half is 3 / 2.
\<close>

lemma fl32_examples:
  "fl32 0 = 0" "fl32 34 = 34" "fl32 (3 / 2) = 3 / 2" "fl32 (- (5 / 2)) = - (5 / 2)"
  "fl32 (1 / 10) = 13421773 / 134217728"
  "fl32 16777217 = 16777216" "fl32 16777219 = 16777220"
  "fl32 (16777215 / 33554432) = 16777215 / 33554432"
  "fadd32 1 (16777215 / 33554432) = 3 / 2"
  by code_simp+

lemma map_two: "length xs = 2 \<Longrightarrow> f (xs ! 0) = a \<Longrightarrow> f (xs ! 1) = b \<Longrightarrow> map f xs = [a, b]"
  by (auto simp add: length_Suc_conv numeral_2_eq_2)

text \<open>
  The texts of one line: one for each chunk, in order; the first at the rounded pen
  position the line starts with, every other one at the rounded position that the
  measurer reports for the end of the text before it.
\<close>

lemma layout_chunks_positions:
  "layout_chunks env s cs = (None, s') \<Longrightarrow>
     \<exists>ts. texts (obj s') = texts (obj s) @ ts \<and> length ts = length cs \<and>
       (\<forall>i<length cs.
          m_string (ts ! i) = chunk_text (cs ! i) \<and>
          m_position (ts ! i) =
            (roundf (fst (if i = 0 then next_position s
                          else findCharacterPos env (ts ! (i - 1))
                                 (length (chunk_text (cs ! (i - 1)))))),
             roundf (snd (if i = 0 then next_position s
                          else findCharacterPos env (ts ! (i - 1))
                                 (length (chunk_text (cs ! (i - 1)))))))) \<and>
       next_position s' =
         (if cs = [] then next_position s
          else findCharacterPos env (last ts) (length (chunk_text (last cs))))"
proof (induction cs arbitrary: s)
  case Nil
  then show ?case by simp
next
  case (Cons c cs)
  show ?case
  proof (cases "font (chunk_format c)")
    case None
    with Cons.prems show ?thesis by simp
  next
    case (Some f)
    let ?t = "make_text (character_size (obj s)) c f (next_position s)"
    let ?s1 = "place_chunk env s c f"
    from Some Cons.prems have r: "layout_chunks env ?s1 cs = (None, s')"
      by simp
    from Cons.IH [OF r] obtain ts where
      ts: "texts (obj s') = texts (obj ?s1) @ ts" and len: "length ts = length cs"
      and pos: "\<And>i. i < length cs \<Longrightarrow>
          m_string (ts ! i) = chunk_text (cs ! i) \<and>
          m_position (ts ! i) =
            (roundf (fst (if i = 0 then next_position ?s1
                          else findCharacterPos env (ts ! (i - 1))
                                 (length (chunk_text (cs ! (i - 1)))))),
             roundf (snd (if i = 0 then next_position ?s1
                          else findCharacterPos env (ts ! (i - 1))
                                 (length (chunk_text (cs ! (i - 1)))))))"
      and nxt: "next_position s' =
         (if cs = [] then next_position ?s1
          else findCharacterPos env (last ts) (length (chunk_text (last cs))))"
      by blast
    have s1: "texts (obj ?s1) = texts (obj s) @ [?t]"
      "next_position ?s1 = findCharacterPos env ?t (length (chunk_text c))"
      by (simp_all add: place_chunk_def Let_def)
    have t: "m_string ?t = chunk_text c"
      "m_position ?t = (roundf (fst (next_position s)), roundf (snd (next_position s)))"
      by (simp_all add: make_text_def)
    have 1: "texts (obj s') = texts (obj s) @ (?t # ts)"
      using ts s1 by simp
    have 2: "length (?t # ts) = length (c # cs)"
      using len by simp
    have 3: "\<forall>i<length (c # cs).
          m_string ((?t # ts) ! i) = chunk_text ((c # cs) ! i) \<and>
          m_position ((?t # ts) ! i) =
            (roundf (fst (if i = 0 then next_position s
                          else findCharacterPos env ((?t # ts) ! (i - 1))
                                 (length (chunk_text ((c # cs) ! (i - 1)))))),
             roundf (snd (if i = 0 then next_position s
                          else findCharacterPos env ((?t # ts) ! (i - 1))
                                 (length (chunk_text ((c # cs) ! (i - 1)))))))"
    proof (intro allI impI)
      fix i
      assume i: "i < length (c # cs)"
      show "m_string ((?t # ts) ! i) = chunk_text ((c # cs) ! i) \<and>
          m_position ((?t # ts) ! i) =
            (roundf (fst (if i = 0 then next_position s
                          else findCharacterPos env ((?t # ts) ! (i - 1))
                                 (length (chunk_text ((c # cs) ! (i - 1)))))),
             roundf (snd (if i = 0 then next_position s
                          else findCharacterPos env ((?t # ts) ! (i - 1))
                                 (length (chunk_text ((c # cs) ! (i - 1)))))))"
      proof (cases i)
        case 0
        then show ?thesis
          using t by simp
      next
        case (Suc j)
        with i have j: "j < length cs"
          by simp
        show ?thesis
        proof (cases j)
          case 0
          with pos [OF j] Suc s1(2) show ?thesis
            by simp
        next
          case (Suc k)
          with pos [OF j] \<open>i = Suc j\<close> show ?thesis
            by simp
        qed
      qed
    qed
    have 4: "next_position s' =
        findCharacterPos env (last (?t # ts)) (length (chunk_text (last (c # cs))))"
    proof (cases cs)
      case Nil
      with len nxt s1(2) show ?thesis
        by simp
    next
      case (Cons c2 cs2)
      with len have "ts \<noteq> []"
        by auto
      with nxt Cons show ?thesis
        by simp
    qed
    show ?thesis
      using 1 2 3 4 by (intro exI [of _ "?t # ts"]) simp
  qed
qed

text \<open>
  Claim C1, as the code has it. The pen starts at \<open>(0, 0)\<close>. The chunks of a line that
  are placed without an exception give one text each, in order; the text of chunk \<open>i\<close>
  stands at the pen position with both coordinates rounded by \<^verbatim>\<open>roundf\<close>, where the pen
  is the one the line starts with for \<open>i = 0\<close> and otherwise the position that the
  measurer reports for the end of the text before it. The line spacing computed for
  the line is the largest of 0 and the line spacings of the fonts of its chunks at the
  character size; behind the last line nothing more happens, and behind any other line
  the pen goes to \<open>x = 0\<close> and to the \<^verbatim>\<open>float\<close> sum of the \<open>y\<close> the measurer reported at the
  end of the line's last chunk and that line spacing. The first text of the next line
  stands at \<open>x = 0\<close> and at that sum rounded by \<^verbatim>\<open>roundf\<close>. For the two lines \<^verbatim>\<open>a\<close> and
  \<^verbatim>\<open>b\<close> behind a font tag, the text of \<^verbatim>\<open>b\<close> has origin \<open>x = 0\<close> and
  \<open>y = roundf (fadd32 y\<^sub>1 spacing)\<close>, where \<open>y\<^sub>1\<close> is the measurer's \<open>y\<close> at the end of \<^verbatim>\<open>a\<close>;
  this is the rounded line spacing when \<open>y\<^sub>1\<close> is 0 and the spacing is a \<^verbatim>\<open>float\<close> that is
  not negative.
\<close>

theorem line_advance:
  "next_position (layout_start rt src) = (0, 0) \<and>
   (layout_chunks env s cs = (None, s') \<and> n = length (texts (obj s)) \<and> i < length cs \<and>
    pen = (if i = 0 then next_position s
           else findCharacterPos env (texts (obj s') ! (n + i - 1))
                  (length (chunk_text (cs ! (i - 1))))) \<longrightarrow>
      length (texts (obj s')) = n + length cs \<and>
      take n (texts (obj s')) = texts (obj s) \<and>
      m_string (texts (obj s') ! (n + i)) = chunk_text (cs ! i) \<and>
      m_position (texts (obj s') ! (n + i)) = (roundf (fst pen), roundf (snd pen)) \<and>
      next_position s' =
        findCharacterPos env (last (texts (obj s'))) (length (chunk_text (last cs)))) \<and>
   (layout_chunks env (s\<lparr>line_spacing := 0\<rparr>) (chunks l) = (None, s1) \<longrightarrow>
      line_spacing s1 =
        Max (insert 0 (chunk_spacing env (character_size (obj s)) ` set (chunks l))) \<and>
      layout_lines env s [l] = (None, s1) \<and>
      layout_lines env s (l # l' # rest) =
        layout_lines env
          (s1\<lparr>next_position := (0, fadd32 (snd (next_position s1)) (line_spacing s1))\<rparr>)
          (l' # rest)) \<and>
   (layout_chunks env (s\<lparr>line_spacing := 0\<rparr>) (chunks l) = (None, s1) \<and>
    chunks l' = c' # cs' \<and> font (chunk_format c') = Some f' \<and>
    layout_lines env s (l # l' # rest) = (e, s2) \<longrightarrow>
      m_string (texts (obj s2) ! length (texts (obj s1))) = chunk_text c' \<and>
      m_position (texts (obj s2) ! length (texts (obj s1))) =
        (0, roundf (fadd32 (snd (next_position s1)) (line_spacing s1)))) \<and>
   (ch CHR '']'' \<notin> set name \<and> toAnsiString env name = f \<and> (f \<in> fs \<or> loadFromFile env f) \<and>
    t1 = \<lparr>m_string = [ch CHR ''a''], m_font = f, m_characterSize = character_size rt,
          m_style = Regular, m_fillColor = White, m_outlineColor = White,
          m_outlineThickness = 0, m_position = (0, 0)\<rparr> \<and>
    set_source env colors fs rt
      (ch CHR ''['' # (utf32 ''font'' @ ch CHR '' '' # name) @
         ch CHR '']'' # [ch CHR ''a'', ch CHR 0x0A, ch CHR ''b'']) = (e, fs', rt') \<longrightarrow>
      e = None \<and>
      map m_string (texts rt') = [ [ch CHR ''a''], [ch CHR ''b''] ] \<and>
      map m_position (texts rt') =
        [(0, 0),
         (0, roundf (fadd32 (snd (findCharacterPos env t1 1))
                       (max 0 (getLineSpacing env f (character_size rt)))))] \<and>
      (snd (findCharacterPos env t1 1) = 0 \<and> 0 \<le> getLineSpacing env f (character_size rt) \<and>
       fl32 (getLineSpacing env f (character_size rt)) = getLineSpacing env f (character_size rt) \<longrightarrow>
         map m_position (texts rt') =
           [(0, 0), (0, roundf (getLineSpacing env f (character_size rt)))]))"
proof (intro conjI impI)
  show "next_position (layout_start rt src) = (0, 0)"
    by (simp add: layout_start_def)
next
  assume a: "layout_chunks env s cs = (None, s') \<and> n = length (texts (obj s)) \<and>
    i < length cs \<and>
    pen = (if i = 0 then next_position s
           else findCharacterPos env (texts (obj s') ! (n + i - 1))
                  (length (chunk_text (cs ! (i - 1)))))"
  then have r: "layout_chunks env s cs = (None, s')" and n: "n = length (texts (obj s))"
    and i: "i < length cs"
    and pen: "pen = (if i = 0 then next_position s
           else findCharacterPos env (texts (obj s') ! (n + i - 1))
                  (length (chunk_text (cs ! (i - 1)))))"
    by simp_all
  from layout_chunks_positions [OF r] obtain ts where
    ts: "texts (obj s') = texts (obj s) @ ts" and len: "length ts = length cs"
    and pos: "\<And>i. i < length cs \<Longrightarrow>
        m_string (ts ! i) = chunk_text (cs ! i) \<and>
        m_position (ts ! i) =
          (roundf (fst (if i = 0 then next_position s
                        else findCharacterPos env (ts ! (i - 1))
                               (length (chunk_text (cs ! (i - 1)))))),
           roundf (snd (if i = 0 then next_position s
                        else findCharacterPos env (ts ! (i - 1))
                               (length (chunk_text (cs ! (i - 1)))))))"
    and nxt: "next_position s' =
       (if cs = [] then next_position s
        else findCharacterPos env (last ts) (length (chunk_text (last cs))))"
    by blast
  have ne: "cs \<noteq> []" "ts \<noteq> []"
    using i len by auto
  have at: "texts (obj s') ! (n + i) = ts ! i"
    unfolding ts n by simp
  have before: "0 < i \<Longrightarrow> texts (obj s') ! (n + i - 1) = ts ! (i - 1)"
    unfolding ts n by (simp add: nth_append)
  show "length (texts (obj s')) = n + length cs"
    unfolding ts n len [symmetric] by simp
  show "take n (texts (obj s')) = texts (obj s)"
    unfolding ts n by simp
  show "m_string (texts (obj s') ! (n + i)) = chunk_text (cs ! i)"
    unfolding at using pos [OF i] by simp
  show "m_position (texts (obj s') ! (n + i)) = (roundf (fst pen), roundf (snd pen))"
  proof (cases "i = 0")
    case True
    then show ?thesis
      unfolding at pen using pos [OF i] by simp
  next
    case False
    then have "0 < i" by simp
    from before [OF this] False show ?thesis
      unfolding at pen using pos [OF i] by simp
  qed
  show "next_position s' =
      findCharacterPos env (last (texts (obj s'))) (length (chunk_text (last cs)))"
    using nxt ne unfolding ts by simp
next
  assume a: "layout_chunks env (s\<lparr>line_spacing := 0\<rparr>) (chunks l) = (None, s1)"
  from layout_chunks_spacing [OF a]
  show "line_spacing s1 =
      Max (insert 0 (chunk_spacing env (character_size (obj s)) ` set (chunks l)))"
    by simp
  show "layout_lines env s [l] = (None, s1)"
    using a by simp
  show "layout_lines env s (l # l' # rest) =
      layout_lines env
        (s1\<lparr>next_position := (0, fadd32 (snd (next_position s1)) (line_spacing s1))\<rparr>)
        (l' # rest)"
    using a by (subst layout_lines.simps(2)) (simp add: break_line_def del: layout_lines.simps(2))
next
  assume a: "layout_chunks env (s\<lparr>line_spacing := 0\<rparr>) (chunks l) = (None, s1) \<and>
    chunks l' = c' # cs' \<and> font (chunk_format c') = Some f' \<and>
    layout_lines env s (l # l' # rest) = (e, s2)"
  then have "layout_lines env s (l # l' # rest) = layout_lines env (break_line s1) (l' # rest)"
    by (subst layout_lines.simps(2)) (simp del: layout_lines.simps(2))
  with a have r: "layout_lines env (break_line s1) (l' # rest) = (e, s2)"
    by (simp del: layout_lines.simps(2))
  from layout_lines_first_text [OF r] a
  have "texts (obj s2) ! length (texts (obj (break_line s1))) =
      make_text (character_size (obj (break_line s1))) c' f' (next_position (break_line s1))"
    by simp
  then have t: "texts (obj s2) ! length (texts (obj s1)) =
      make_text (character_size (obj s1)) c' f'
        (0, fadd32 (snd (next_position s1)) (line_spacing s1))"
    by (simp add: break_line_def)
  show "m_string (texts (obj s2) ! length (texts (obj s1))) = chunk_text c'"
    unfolding t by (simp add: make_text_def)
  show "m_position (texts (obj s2) ! length (texts (obj s1))) =
      (0, roundf (fadd32 (snd (next_position s1)) (line_spacing s1)))"
    unfolding t by (simp add: make_text_def roundf_zero)
next
  assume a: "ch CHR '']'' \<notin> set name \<and> toAnsiString env name = f \<and>
    (f \<in> fs \<or> loadFromFile env f) \<and>
    t1 = \<lparr>m_string = [ch CHR ''a''], m_font = f, m_characterSize = character_size rt,
          m_style = Regular, m_fillColor = White, m_outlineColor = White,
          m_outlineThickness = 0, m_position = (0, 0)\<rparr> \<and>
    set_source env colors fs rt
      (ch CHR ''['' # (utf32 ''font'' @ ch CHR '' '' # name) @
         ch CHR '']'' # [ch CHR ''a'', ch CHR 0x0A, ch CHR ''b'']) = (e, fs', rt')"
  let ?src = "ch CHR ''['' # (utf32 ''font'' @ ch CHR '' '' # name) @
         ch CHR '']'' # [ch CHR ''a'', ch CHR 0x0A, ch CHR ''b'']"
  from a have tok: "tokenize env colors (initial_state fs) ?src =
     (None,
      \<lparr>current_format = default_format\<lparr>font := Some f\<rparr>,
       lines =
         [\<lparr>chunks = [\<lparr>chunk_format = default_format\<lparr>font := Some f\<rparr>,
                      chunk_text = [ch CHR ''a'']\<rparr>], alignment = align_left\<rparr>,
          \<lparr>chunks = [\<lparr>chunk_format = default_format\<lparr>font := Some f\<rparr>,
                      chunk_text = [ch CHR ''b'']\<rparr>], alignment = align_left\<rparr>],
       fonts = insert f fs\<rparr>)"
    by (intro two_line_tokens) simp_all
  from a have res: "set_source env colors fs rt ?src = (e, fs', rt')" and t1: "t1 =
      \<lparr>m_string = [ch CHR ''a''], m_font = f, m_characterSize = character_size rt,
       m_style = Regular, m_fillColor = White, m_outlineColor = White,
       m_outlineThickness = 0, m_position = (0, 0)\<rparr>"
    by simp_all
  have all: "e = None \<and>
      map m_string (texts rt') = [ [ch CHR ''a''], [ch CHR ''b''] ] \<and>
      map m_position (texts rt') =
        [(0, 0),
         (0, roundf (fadd32 (snd (findCharacterPos env t1 1))
                       (max 0 (getLineSpacing env f (character_size rt)))))]"
    using res unfolding set_source_def tok t1
    by (auto simp add: layout_start_def place_chunk_def break_line_def make_text_def
        roundf_zero Let_def default_format_def)
  then show "e = None"
    and "map m_string (texts rt') = [ [ch CHR ''a''], [ch CHR ''b''] ]"
    and "map m_position (texts rt') =
        [(0, 0),
         (0, roundf (fadd32 (snd (findCharacterPos env t1 1))
                       (max 0 (getLineSpacing env f (character_size rt)))))]"
    by simp_all
  assume "snd (findCharacterPos env t1 1) = 0 \<and> 0 \<le> getLineSpacing env f (character_size rt) \<and>
    fl32 (getLineSpacing env f (character_size rt)) = getLineSpacing env f (character_size rt)"
  with all show "map m_position (texts rt') =
      [(0, 0), (0, roundf (getLineSpacing env f (character_size rt)))]"
    by (simp add: max_absorb2 fadd32_def)
qed

theorem line_advance_witness:
  "map m_position (texts (snd (snd (set_source (example_env 34) default_colors {} empty_rich_text
      (ch CHR ''['' # (utf32 ''font'' @ ch CHR '' '' # utf32 ''f'') @
         ch CHR '']'' # [ch CHR ''a'', ch CHR 0x0A, ch CHR ''b'']))))) = [(0, 0), (0, 34)] \<and>
   map m_position (texts (obj (snd (layout_chunks (example_env 34)
      ((layout_start empty_rich_text [])\<lparr>next_position := (5 / 2, 7 / 2)\<rparr>)
      [\<lparr>chunk_format = default_format\<lparr>font := Some ''f''\<rparr>, chunk_text = utf32 ''ab''\<rparr>,
       \<lparr>chunk_format = default_format\<lparr>font := Some ''f'', style_flags := Bold\<rparr>,
        chunk_text = utf32 ''c''\<rparr>])))) = [(3, 4), (23, 4)] \<and>
   line_spacing (snd (layout_chunks (example_env (16777215 / 33554432))
      ((layout_start empty_rich_text [])\<lparr>next_position := (0, 1), line_spacing := 0\<rparr>)
      [\<lparr>chunk_format = default_format\<lparr>font := Some ''f''\<rparr>, chunk_text = [ch CHR ''a'']\<rparr>])) =
     16777215 / 33554432 \<and>
   m_position (texts (obj (snd (layout_lines (example_env (16777215 / 33554432))
      ((layout_start empty_rich_text [])\<lparr>next_position := (0, 1)\<rparr>)
      [\<lparr>chunks = [\<lparr>chunk_format = default_format\<lparr>font := Some ''f''\<rparr>,
                   chunk_text = [ch CHR ''a'']\<rparr>], alignment = align_left\<rparr>,
       \<lparr>chunks = [\<lparr>chunk_format = default_format\<lparr>font := Some ''f''\<rparr>,
                   chunk_text = [ch CHR ''b'']\<rparr>], alignment = align_left\<rparr>]))) ! 1) = (0, 2)"
proof -
  let ?env = "example_env 34"
  let ?src = "ch CHR ''['' # (utf32 ''font'' @ ch CHR '' '' # utf32 ''f'') @
         ch CHR '']'' # [ch CHR ''a'', ch CHR 0x0A, ch CHR ''b'']"
  let ?ca = "\<lparr>chunk_format = default_format\<lparr>font := Some ''f''\<rparr>, chunk_text = [ch CHR ''a'']\<rparr>"
  let ?cb = "\<lparr>chunk_format = default_format\<lparr>font := Some ''f''\<rparr>, chunk_text = [ch CHR ''b'']\<rparr>"
  let ?l = "\<lparr>chunks = [?ca], alignment = align_left\<rparr>"
  let ?l' = "\<lparr>chunks = [?cb], alignment = align_left\<rparr>"
  let ?t1 = "\<lparr>m_string = [ch CHR ''a''], m_font = ''f'',
      m_characterSize = character_size empty_rich_text,
      m_style = Regular, m_fillColor = White, m_outlineColor = White,
      m_outlineThickness = 0, m_position = (0, 0)\<rparr>"
  let ?r = "set_source ?env default_colors {} empty_rich_text ?src"
  text \<open>The two lines behind a font tag.\<close>
  have nb: "ch CHR '']'' \<notin> set (utf32 ''f'')"
    by (simp add: utf32_def ch_def)
  have ta: "toAnsiString ?env (utf32 ''f'') = ''f''" and ld: "loadFromFile ?env ''f''"
    by code_simp+
  have h4: "ch CHR '']'' \<notin> set (utf32 ''f'') \<and> toAnsiString ?env (utf32 ''f'') = ''f'' \<and>
      (''f'' \<in> {} \<or> loadFromFile ?env ''f'') \<and> ?t1 = ?t1 \<and>
      ?r = (fst ?r, fst (snd ?r), snd (snd ?r))"
    using nb ta ld by simp
  have f34: "fl32 34 = 34"
    by code_simp
  have h5: "snd (findCharacterPos ?env ?t1 1) = 0 \<and>
      0 \<le> getLineSpacing ?env ''f'' (character_size empty_rich_text) \<and>
      fl32 (getLineSpacing ?env ''f'' (character_size empty_rich_text)) =
        getLineSpacing ?env ''f'' (character_size empty_rich_text)"
    by (simp add: example_env_def f34)
  have rd: "roundf 34 = 34"
    by code_simp
  note lb = line_advance [where env = ?env and colors = default_colors and fs = "{}"
      and rt = empty_rich_text and name = "utf32 ''f''" and f = "''f''" and ?t1.0 = ?t1
      and e = "fst ?r" and fs' = "fst (snd ?r)" and rt' = "snd (snd ?r)",
      THEN conjunct2, THEN conjunct2, THEN conjunct2, THEN conjunct2, THEN mp, OF h4]
  have 1: "map m_position (texts (snd (snd ?r))) = [(0, 0), (0, 34)]"
    using lb [THEN conjunct2, THEN conjunct2, THEN conjunct2, THEN mp, OF h5]
    by (simp add: example_env_def rd)
  text \<open>The texts of one line that starts between the pixels.\<close>
  let ?s = "(layout_start empty_rich_text [])\<lparr>next_position := (5 / 2, 7 / 2)\<rparr>"
  let ?cs = "[\<lparr>chunk_format = default_format\<lparr>font := Some ''f''\<rparr>, chunk_text = utf32 ''ab''\<rparr>,
       \<lparr>chunk_format = default_format\<lparr>font := Some ''f'', style_flags := Bold\<rparr>,
        chunk_text = utf32 ''c''\<rparr>]"
  let ?s' = "snd (layout_chunks ?env ?s ?cs)"
  have g0: "layout_chunks ?env ?s ?cs = (None, ?s') \<and> 0 = length (texts (obj ?s)) \<and>
      0 < length ?cs \<and>
      (5 / 2, 7 / 2) = (if (0::nat) = 0 then next_position ?s
           else findCharacterPos ?env (texts (obj ?s') ! (0 + 0 - 1))
                  (length (chunk_text (?cs ! (0 - 1)))))"
    by code_simp
  have g1: "layout_chunks ?env ?s ?cs = (None, ?s') \<and> 0 = length (texts (obj ?s)) \<and>
      1 < length ?cs \<and>
      (23, 4) = (if (1::nat) = 0 then next_position ?s
           else findCharacterPos ?env (texts (obj ?s') ! (0 + 1 - 1))
                  (length (chunk_text (?cs ! (1 - 1)))))"
    by code_simp
  have rr: "roundf (5 / 2) = 3" "roundf (7 / 2) = 4" "roundf 23 = 23" "roundf 4 = 4"
    by code_simp+
  note p0 = line_advance [where env = ?env and s = ?s and cs = ?cs and s' = ?s' and n = 0
      and i = 0 and pen = "(5 / 2, 7 / 2)", THEN conjunct2, THEN conjunct1, THEN mp, OF g0]
  note p1 = line_advance [where env = ?env and s = ?s and cs = ?cs and s' = ?s' and n = 0
      and i = 1 and pen = "(23, 4)", THEN conjunct2, THEN conjunct1, THEN mp, OF g1]
  have len: "length (texts (obj ?s')) = 2"
    using p0 [THEN conjunct1] by simp
  have e0: "m_position (texts (obj ?s') ! 0) = (3, 4)"
    using p0 [THEN conjunct2, THEN conjunct2, THEN conjunct2, THEN conjunct1]
    by (simp add: rr del: layout_chunks.simps)
  have e1: "m_position (texts (obj ?s') ! 1) = (23, 4)"
    using p1 [THEN conjunct2, THEN conjunct2, THEN conjunct2, THEN conjunct1]
    by (simp add: rr del: layout_chunks.simps)
  have 2: "map m_position (texts (obj ?s')) = [(3, 4), (23, 4)]"
    by (rule map_two [OF len e0 e1])
  text \<open>The line advance from a pen at \<open>y = 1\<close>, where the sum is rounded to 3 / 2.\<close>
  let ?sp = "16777215 / 33554432 :: rat"
  let ?env2 = "example_env ?sp"
  let ?u = "(layout_start empty_rich_text [])\<lparr>next_position := (0, 1)\<rparr>"
  let ?u1 = "snd (layout_chunks ?env2 (?u\<lparr>line_spacing := 0\<rparr>) (chunks ?l))"
  let ?r2 = "layout_lines ?env2 ?u (?l # ?l' # [])"
  have h2: "layout_chunks ?env2 (?u\<lparr>line_spacing := 0\<rparr>) (chunks ?l) = (None, ?u1)"
    by simp
  have v2: "chunk_spacing ?env2 (character_size (obj ?u)) ` set (chunks ?l) = {?sp}"
    by (simp add: chunk_spacing_def example_env_def)
  have n1: "length (texts (obj ?u1)) = 1" "snd (next_position ?u1) = 1" "line_spacing ?u1 = ?sp"
    by code_simp+
  have h3: "layout_chunks ?env2 (?u\<lparr>line_spacing := 0\<rparr>) (chunks ?l) = (None, ?u1) \<and>
      chunks ?l' = ?cb # [] \<and> font (chunk_format ?cb) = Some ''f'' \<and>
      ?r2 = (fst ?r2, snd ?r2)"
    by simp
  note la = line_advance [where env = ?env2 and s = ?u and l = ?l and ?s1.0 = ?u1 and l' = ?l'
      and rest = "[]" and c' = ?cb and cs' = "[]" and f' = "''f''" and e = "fst ?r2"
      and ?s2.0 = "snd ?r2", THEN conjunct2, THEN conjunct2]
  have mx: "Max (insert 0 {?sp}) = ?sp"
    by simp
  have rd0: "roundf (fadd32 1 ?sp) = 2"
    by code_simp
  from la [THEN conjunct1, THEN mp, OF h2, THEN conjunct1]
  have "line_spacing ?u1 = Max (insert 0 {?sp})"
    unfolding v2 .
  then have 3: "line_spacing ?u1 = ?sp"
    by (simp only: mx)
  from la [THEN conjunct2, THEN conjunct1, THEN mp, OF h3, THEN conjunct2]
  have 4: "m_position (texts (obj (snd ?r2)) ! 1) = (0, 2)"
    unfolding n1 rd0 .
  show ?thesis
    using 1 2 3 4 by (simp add: utf32_def del: layout_chunks.simps layout_lines.simps)
qed

text \<open>
  Claim C1 as stated fails on the two-line input \<^verbatim>\<open>a\<close>, newline, \<^verbatim>\<open>b\<close>: no font is set, so
  \<^verbatim>\<open>set_source\<close> throws and there is no positioned run at all. With a font and a line
  spacing of one half, the run of the second line stands at \<open>y = 1\<close>, the rounded value,
  not at the line spacing.
\<close>

theorem line_advance_counterexample:
  "set_source (example_env 34) default_colors {} empty_rich_text
     [ch CHR ''a'', ch CHR 0x0A, ch CHR ''b''] =
     (Some MissingFont, {},
      cleared empty_rich_text [ch CHR ''a'', ch CHR 0x0A, ch CHR ''b'']) \<and>
   texts (cleared empty_rich_text [ch CHR ''a'', ch CHR 0x0A, ch CHR ''b'']) = [] \<and>
   getLineSpacing (example_env (1 / 2)) ''f'' 30 = 1 / 2 \<and>
   map m_position (texts (snd (snd (set_source (example_env (1 / 2)) default_colors {}
      empty_rich_text (utf32 ''[font f]a'' @ ch CHR 0x0A # utf32 ''b''))))) = [(0, 0), (0, 1)] \<and>
   snd (m_position (texts (snd (snd (set_source (example_env (1 / 2)) default_colors {}
      empty_rich_text (utf32 ''[font f]a'' @ ch CHR 0x0A # utf32 ''b'')))) ! 1)) \<noteq>
     getLineSpacing (example_env (1 / 2)) ''f'' 30"
  by code_simp

end
